theory Spec2Isabelle
  imports Main "HOL-Library.Word"
begin

unbundle bit_operations_syntax

section \<open>Errors, promises and calls that may throw\<close>

text \<open>
  The errno codes the core emits (error.ts is not part of the sources at hand; the
  constructors are the names the code uses: \<^verbatim>\<open>Errno.EROFS\<close>, \<^verbatim>\<open>'ENOENT'\<close>, ...).
\<close>

datatype Errno =
  EPERM | ENOENT | EIO | EEXIST | ENOTDIR | EISDIR | EINVAL | EROFS | ENOTEMPTY | EACCES | ENOTSUP

text \<open>
  An \<^verbatim>\<open>ErrnoError\<close> carries the errno, the optional path and the optional syscall name.
  The human-readable message is not modelled. The field \<open>epath\<close> is the source's
  \<^verbatim>\<open>path\<close> (renamed, as \<open>path\<close> is the parameter name of most methods).
\<close>

record ErrnoError =
  errno :: Errno
  epath :: "string option"
  syscall :: "string option"

text \<open>\<^verbatim>\<open>new ErrnoError(errno)\<close> and \<^verbatim>\<open>ErrnoError.With(code, path, syscall)\<close>.\<close>

definition ErrnoError_new :: "Errno \<Rightarrow> ErrnoError" where
  "ErrnoError_new n = \<lparr>errno = n, epath = None, syscall = None\<rparr>"

definition With :: "Errno \<Rightarrow> string \<Rightarrow> string \<Rightarrow> ErrnoError" where
  "With n path sc = \<lparr>errno = n, epath = Some path, syscall = Some sc\<rparr>"

text \<open>\<^verbatim>\<open>err.code\<close>: the name of the errno, as a string.\<close>

fun Errno_name :: "Errno \<Rightarrow> string" where
  "Errno_name EPERM = ''EPERM''"
| "Errno_name ENOENT = ''ENOENT''"
| "Errno_name EIO = ''EIO''"
| "Errno_name EEXIST = ''EEXIST''"
| "Errno_name ENOTDIR = ''ENOTDIR''"
| "Errno_name EISDIR = ''EISDIR''"
| "Errno_name EINVAL = ''EINVAL''"
| "Errno_name EROFS = ''EROFS''"
| "Errno_name ENOTEMPTY = ''ENOTEMPTY''"
| "Errno_name EACCES = ''EACCES''"
| "Errno_name ENOTSUP = ''ENOTSUP''"

definition code :: "ErrnoError \<Rightarrow> string" where
  "code e = Errno_name (errno e)"

text \<open>
  A promise, once settled, is resolved with a value or rejected with an error.
  A synchronous call on a state \<open>'s\<close> returns a value or throws, and leaves a new state;
  an asynchronous call, awaited, leaves a settled promise and a new state. The model
  is sequential: between the call of an asynchronous method and the settling of its
  promise no other task runs (the queue of the async bridge, where this matters, has a
  model of its own below).
\<close>

datatype 'a Promise = Resolved 'a | Rejected ErrnoError

type_synonym ('a, 's) SyncCall = "'s \<Rightarrow> (ErrnoError + 'a) \<times> 's"
type_synonym ('a, 's) AsyncCall = "'s \<Rightarrow> 'a Promise \<times> 's"

text \<open>\<^verbatim>\<open>await p\<close>: the value of a resolved promise, the exception of a rejected one.\<close>

definition await :: "('a, 's) AsyncCall \<Rightarrow> ('a, 's) SyncCall" where
  "await p s = (case p s of (Resolved v, s') \<Rightarrow> (Inr v, s') | (Rejected e, s') \<Rightarrow> (Inl e, s'))"

text \<open>An \<^verbatim>\<open>async\<close> function: its return value resolves the promise, its exception rejects it.\<close>

definition async :: "('a, 's) SyncCall \<Rightarrow> ('a, 's) AsyncCall" where
  "async m s = (case m s of (Inr v, s') \<Rightarrow> (Resolved v, s') | (Inl e, s') \<Rightarrow> (Rejected e, s'))"

definition return :: "'a \<Rightarrow> ('a, 's) SyncCall" where
  "return v s = (Inr v, s)"

definition throw :: "ErrnoError \<Rightarrow> ('a, 's) SyncCall" where
  "throw e s = (Inl e, s)"

text \<open>Sequencing of statements: an exception of the first skips the rest.\<close>

definition andThen :: "('a, 's) SyncCall \<Rightarrow> ('a \<Rightarrow> ('b, 's) SyncCall) \<Rightarrow> ('b, 's) SyncCall" where
  "andThen m f s = (case m s of (Inl e, s') \<Rightarrow> (Inl e, s') | (Inr v, s') \<Rightarrow> f v s')"

text \<open>\<^verbatim>\<open>try { m } catch (e) { h(e) }\<close>.\<close>

definition try_catch :: "('a, 's) SyncCall \<Rightarrow> (ErrnoError \<Rightarrow> ('a, 's) SyncCall) \<Rightarrow> ('a, 's) SyncCall" where
  "try_catch m h s = (case m s of (Inl e, s') \<Rightarrow> h e s' | (Inr v, s') \<Rightarrow> (Inr v, s'))"

section \<open>Numbers, credentials and stats\<close>

text \<open>
  JavaScript numbers that hold integers are modelled as \<open>int\<close>. The bitwise operators
  convert both operands to signed 32-bit integers first (ToInt32) and return a signed
  32-bit integer.
\<close>

definition js_and :: "int \<Rightarrow> int \<Rightarrow> int" where
  "js_and a b = sint ((word_of_int a :: 32 word) AND word_of_int b)"

definition js_or :: "int \<Rightarrow> int \<Rightarrow> int" where
  "js_or a b = sint ((word_of_int a :: 32 word) OR word_of_int b)"

text \<open>The mode constants of emulation/constants.ts (their POSIX values).\<close>

definition S_IFMT :: int where "S_IFMT = 61440"
definition S_IFREG :: int where "S_IFREG = 32768"
definition S_IFDIR :: int where "S_IFDIR = 16384"
definition S_IFLNK :: int where "S_IFLNK = 40960"
definition S_IRWXU :: int where "S_IRWXU = 448"
definition S_IRWXG :: int where "S_IRWXG = 56"
definition S_IRWXO :: int where "S_IRWXO = 7"

record Cred =
  uid :: int
  gid :: int
  suid :: int
  sgid :: int
  euid :: int
  egid :: int

definition rootCred :: Cred where
  "rootCred = \<lparr>uid = 0, gid = 0, suid = 0, sgid = 0, euid = 0, egid = 0\<rparr>"

text \<open>
  The fields of \<^verbatim>\<open>StatsLike\<close>. The fields \<open>size'\<close>, \<open>uid'\<close> and \<open>gid'\<close> are the source's
  \<^verbatim>\<open>size\<close>, \<^verbatim>\<open>uid\<close> and \<^verbatim>\<open>gid\<close> (those names are taken by HOL and by \<open>Cred\<close>).
\<close>

record Stats =
  size' :: int
  mode :: int
  atimeMs :: int
  mtimeMs :: int
  ctimeMs :: int
  birthtimeMs :: int
  uid' :: int
  gid' :: int
  ino :: int

text \<open>
  \<^verbatim>\<open>new Stats(statsLike)\<close> on an object that has every field: the fields are copied, and
  a mode with no file type gets \<^verbatim>\<open>S_IFREG\<close>.
\<close>

definition Stats_new :: "Stats \<Rightarrow> Stats" where
  "Stats_new st = (if js_and (mode st) S_IFMT = 0 then st\<lparr>mode := js_or (mode st) S_IFREG\<rparr> else st)"

definition isFile :: "Stats \<Rightarrow> bool" where
  "isFile this = (js_and (mode this) S_IFMT = S_IFREG)"

definition isDirectory :: "Stats \<Rightarrow> bool" where
  "isDirectory this = (js_and (mode this) S_IFMT = S_IFDIR)"

text \<open>\<^verbatim>\<open>StatsCommon.hasAccess(mode, cred)\<close>; the requested mode is \<open>m\<close> here.\<close>

definition hasAccess :: "Stats \<Rightarrow> int \<Rightarrow> Cred \<Rightarrow> bool" where
  "hasAccess this m cred =
     (if euid cred = 0 \<or> egid cred = 0 then True
      else (let adjusted =
                  js_or (js_or (if uid cred = uid' this then S_IRWXU else 0)
                               (if gid cred = gid' this then S_IRWXG else 0))
                        S_IRWXO
            in js_and (js_and m (mode this)) adjusted = m))"

section \<open>The FileSystem interface\<close>

type_synonym bytes = string

record FileSystemMetadata =
  name :: string
  readonly :: bool
  totalSpace :: int
  freeSpace :: int
  noResizableBuffers :: bool
  noAsyncCache :: bool
  fstype :: int

text \<open>
  A file handle (file.ts is not part of the sources at hand): the three methods the
  overlay calls on the handle of its deletion log, as closures over the state of the
  file system that opened it.
  \<open>file_read n\<close> is \<^verbatim>\<open>read(new Uint8Array(n))\<close>, returning the buffer.
\<close>

record 's File =
  file_stat :: "(Stats, 's) AsyncCall"
  file_read :: "nat \<Rightarrow> (bytes, 's) AsyncCall"
  file_write :: "bytes \<Rightarrow> (nat, 's) AsyncCall"

text \<open>
  The abstract class \<^verbatim>\<open>FileSystem\<close>: an implementation is a record of its methods, over
  the type \<open>'s\<close> of its state. Every method takes the state and returns the new one.
\<close>

record 's FileSystem =
  metadata :: FileSystemMetadata
  rename :: "string \<Rightarrow> string \<Rightarrow> Cred \<Rightarrow> (unit, 's) AsyncCall"
  renameSync :: "string \<Rightarrow> string \<Rightarrow> Cred \<Rightarrow> (unit, 's) SyncCall"
  stat :: "string \<Rightarrow> Cred \<Rightarrow> (Stats, 's) AsyncCall"
  statSync :: "string \<Rightarrow> Cred \<Rightarrow> (Stats, 's) SyncCall"
  openFile :: "string \<Rightarrow> string \<Rightarrow> Cred \<Rightarrow> ('s File, 's) AsyncCall"
  openFileSync :: "string \<Rightarrow> string \<Rightarrow> Cred \<Rightarrow> ('s File, 's) SyncCall"
  createFile :: "string \<Rightarrow> string \<Rightarrow> int \<Rightarrow> Cred \<Rightarrow> ('s File, 's) AsyncCall"
  createFileSync :: "string \<Rightarrow> string \<Rightarrow> int \<Rightarrow> Cred \<Rightarrow> ('s File, 's) SyncCall"
  unlink :: "string \<Rightarrow> Cred \<Rightarrow> (unit, 's) AsyncCall"
  unlinkSync :: "string \<Rightarrow> Cred \<Rightarrow> (unit, 's) SyncCall"
  rmdir :: "string \<Rightarrow> Cred \<Rightarrow> (unit, 's) AsyncCall"
  rmdirSync :: "string \<Rightarrow> Cred \<Rightarrow> (unit, 's) SyncCall"
  mkdir :: "string \<Rightarrow> int \<Rightarrow> Cred \<Rightarrow> (unit, 's) AsyncCall"
  mkdirSync :: "string \<Rightarrow> int \<Rightarrow> Cred \<Rightarrow> (unit, 's) SyncCall"
  readdir :: "string \<Rightarrow> Cred \<Rightarrow> (string list, 's) AsyncCall"
  readdirSync :: "string \<Rightarrow> Cred \<Rightarrow> (string list, 's) SyncCall"
  exists :: "string \<Rightarrow> Cred \<Rightarrow> (bool, 's) AsyncCall"
  existsSync :: "string \<Rightarrow> Cred \<Rightarrow> (bool, 's) SyncCall"
  link :: "string \<Rightarrow> string \<Rightarrow> Cred \<Rightarrow> (unit, 's) AsyncCall"
  linkSync :: "string \<Rightarrow> string \<Rightarrow> Cred \<Rightarrow> (unit, 's) SyncCall"
  sync :: "string \<Rightarrow> bytes \<Rightarrow> Stats \<Rightarrow> (unit, 's) AsyncCall"
  syncSync :: "string \<Rightarrow> bytes \<Rightarrow> Stats \<Rightarrow> (unit, 's) SyncCall"

text \<open>
  \<^verbatim>\<open>FileSystem.exists\<close> and \<^verbatim>\<open>FileSystem.existsSync\<close>, the default implementations of
  the base class. Their first argument is \<^verbatim>\<open>this.stat\<close> (\<^verbatim>\<open>this.statSync\<close>) of the
  object they are called on.
\<close>

definition FileSystem_exists ::
  "(string \<Rightarrow> Cred \<Rightarrow> (Stats, 's) AsyncCall) \<Rightarrow> string \<Rightarrow> Cred \<Rightarrow> (bool, 's) AsyncCall" where
  "FileSystem_exists this_stat path cred =
     async (try_catch (andThen (await (this_stat path cred)) (\<lambda>_. return True))
                      (\<lambda>e. return (code e \<noteq> ''ENOENT'')))"

definition FileSystem_existsSync ::
  "(string \<Rightarrow> Cred \<Rightarrow> (Stats, 's) SyncCall) \<Rightarrow> string \<Rightarrow> Cred \<Rightarrow> (bool, 's) SyncCall" where
  "FileSystem_existsSync this_statSync path cred =
     try_catch (andThen (this_statSync path cred) (\<lambda>_. return True))
               (\<lambda>e. return (code e \<noteq> ''ENOENT''))"

section \<open>The mixins Sync and Readonly\<close>

text \<open>
  \<^verbatim>\<open>Sync(FS)\<close>: the class \<^verbatim>\<open>SyncFS extends FS\<close>, every asynchronous method an
  \<^verbatim>\<open>async\<close> function that returns the call of the synchronous method.
\<close>

definition Sync :: "'s FileSystem \<Rightarrow> 's FileSystem" where
  "Sync FS = FS\<lparr>
     exists := (\<lambda>path cred. async (existsSync FS path cred)),
     rename := (\<lambda>oldPath newPath cred. async (renameSync FS oldPath newPath cred)),
     stat := (\<lambda>path cred. async (statSync FS path cred)),
     createFile := (\<lambda>path flag m cred. async (createFileSync FS path flag m cred)),
     openFile := (\<lambda>path flag cred. async (openFileSync FS path flag cred)),
     unlink := (\<lambda>path cred. async (unlinkSync FS path cred)),
     rmdir := (\<lambda>path cred. async (rmdirSync FS path cred)),
     mkdir := (\<lambda>path m cred. async (mkdirSync FS path m cred)),
     readdir := (\<lambda>path cred. async (readdirSync FS path cred)),
     link := (\<lambda>srcpath dstpath cred. async (linkSync FS srcpath dstpath cred)),
     sync := (\<lambda>path data stats. async (syncSync FS path data stats))\<rparr>"

text \<open>
  \<^verbatim>\<open>Readonly(FS)\<close>: the class \<^verbatim>\<open>ReadonlyFS extends FS\<close>, every mutating method throwing
  \<^verbatim>\<open>new ErrnoError(Errno.EROFS)\<close>.
\<close>

definition Readonly :: "'s FileSystem \<Rightarrow> 's FileSystem" where
  "Readonly FS = FS\<lparr>
     metadata := (metadata FS)\<lparr>readonly := True\<rparr>,
     rename := (\<lambda>oldPath newPath cred. async (throw (ErrnoError_new EROFS))),
     renameSync := (\<lambda>oldPath newPath cred. throw (ErrnoError_new EROFS)),
     createFile := (\<lambda>path flag m cred. async (throw (ErrnoError_new EROFS))),
     createFileSync := (\<lambda>path flag m cred. throw (ErrnoError_new EROFS)),
     unlink := (\<lambda>path cred. async (throw (ErrnoError_new EROFS))),
     unlinkSync := (\<lambda>path cred. throw (ErrnoError_new EROFS)),
     rmdir := (\<lambda>path cred. async (throw (ErrnoError_new EROFS))),
     rmdirSync := (\<lambda>path cred. throw (ErrnoError_new EROFS)),
     mkdir := (\<lambda>path m cred. async (throw (ErrnoError_new EROFS))),
     mkdirSync := (\<lambda>path m cred. throw (ErrnoError_new EROFS)),
     link := (\<lambda>srcpath dstpath cred. async (throw (ErrnoError_new EROFS))),
     linkSync := (\<lambda>srcpath dstpath cred. throw (ErrnoError_new EROFS)),
     sync := (\<lambda>path data stats. async (throw (ErrnoError_new EROFS))),
     syncSync := (\<lambda>path data stats. throw (ErrnoError_new EROFS))\<rparr>"

section \<open>Strings\<close>

text \<open>
  The string methods the overlay uses: \<^verbatim>\<open>s.split('\n')\<close>, \<^verbatim>\<open>s.startsWith(p)\<close> and
  \<^verbatim>\<open>s.slice(1)\<close>. A split yields at least one piece (the empty string splits into one
  empty piece).
\<close>

definition LF :: char where
  "LF = CHR 0x0A"

fun split_newline :: "string \<Rightarrow> string list" where
  "split_newline [] = [[]]"
| "split_newline (c # cs) =
     (if c = LF then [] # split_newline cs
      else (case split_newline cs of [] \<Rightarrow> [[c]] | l # ls \<Rightarrow> (c # l) # ls))"

definition startsWith :: "string \<Rightarrow> string \<Rightarrow> bool" where
  "startsWith s p = (take (length p) s = p)"

definition slice1 :: "string \<Rightarrow> string" where
  "slice1 s = drop 1 s"

text \<open>
  Modelled from the spec: \<^verbatim>\<open>encode\<close> and \<^verbatim>\<open>decode\<close> of utils.ts and \<^verbatim>\<open>parseFlag\<close> of
  file.ts are not part of the sources at hand. The deletion log is plain text and the
  flags have a string form: text and its bytes are identified here, and a flag is its
  string.
\<close>

definition encode :: "string \<Rightarrow> bytes" where
  "encode s = s"

definition decode :: "bytes \<Rightarrow> string" where
  "decode b = b"

definition parseFlag :: "string \<Rightarrow> string" where
  "parseFlag flag = flag"

section \<open>The overlay: UnlockedOverlayFS\<close>

definition deletionLogPath :: string where
  "deletionLogPath = ''/.deleted''"

text \<open>
  The fields of an \<^verbatim>\<open>UnlockedOverlayFS\<close>. The methods of the two layers
  (\<^verbatim>\<open>this._writable\<close>, \<^verbatim>\<open>this._readable\<close>) are the arguments \<open>W\<close> and \<open>R\<close> of the
  definitions below; \<open>writable\<close> and \<open>readable\<close> hold the states of the layers.
\<close>

record ('w, 'r) UnlockedOverlayFS =
  writable :: 'w
  readable :: 'r
  isInitialized :: bool
  deletedFiles :: "string set"
  deleteLog :: string
  deleteLogUpdatePending :: bool
  deleteLogUpdateNeeded :: bool
  deleteLogError :: "ErrnoError option"

text \<open>A call on a layer, as a call on the overlay.\<close>

definition on_writable :: "('a, 'w) SyncCall \<Rightarrow> ('a, ('w, 'r) UnlockedOverlayFS) SyncCall" where
  "on_writable m ov = (case m (writable ov) of (res, w') \<Rightarrow> (res, ov\<lparr>writable := w'\<rparr>))"

definition on_readable :: "('a, 'r) SyncCall \<Rightarrow> ('a, ('w, 'r) UnlockedOverlayFS) SyncCall" where
  "on_readable m ov = (case m (readable ov) of (res, r') \<Rightarrow> (res, ov\<lparr>readable := r'\<rparr>))"

text \<open>An assignment to fields of \<^verbatim>\<open>this\<close>.\<close>

definition assign :: "('s \<Rightarrow> 's) \<Rightarrow> (unit, 's) SyncCall" where
  "assign f s = (Inr (), f s)"

text \<open>
  The constructor, up to the call of \<^verbatim>\<open>_initialize\<close> (which \<^verbatim>\<open>ready()\<close> awaits):
  it throws \<^verbatim>\<open>EINVAL\<close> when the writable layer reports itself read-only.
\<close>

definition UnlockedOverlayFS_new ::
  "'w FileSystem \<Rightarrow> 'w \<Rightarrow> 'r \<Rightarrow> ErrnoError + ('w, 'r) UnlockedOverlayFS" where
  "UnlockedOverlayFS_new W w r =
     (if readonly (metadata W) then Inl (ErrnoError_new EINVAL)
      else Inr \<lparr>writable = w, readable = r, isInitialized = False, deletedFiles = {},
                deleteLog = [], deleteLogUpdatePending = False, deleteLogUpdateNeeded = False,
                deleteLogError = None\<rparr>)"

text \<open>\<^verbatim>\<open>_reparseDeletionLog\<close>.\<close>

definition reparseDeletionLog :: "(unit, ('w, 'r) UnlockedOverlayFS) SyncCall" where
  "reparseDeletionLog =
     andThen (assign (\<lambda>ov. ov\<lparr>deletedFiles := {}\<rparr>)) (\<lambda>_.
       assign (\<lambda>ov. fold (\<lambda>entry ov'. if \<not> startsWith entry ''d'' then ov'
                                        else ov'\<lparr>deletedFiles := insert (slice1 entry) (deletedFiles ov')\<rparr>)
                          (split_newline (deleteLog ov)) ov))"

text \<open>
  The body of the \<^verbatim>\<open>try\<close> block of \<^verbatim>\<open>_initialize\<close>, up to the decoding: the deletion
  log is opened on the writable layer and read whole.
\<close>

definition readDeletionLog :: "'w FileSystem \<Rightarrow> (string, 'w) SyncCall" where
  "readDeletionLog W =
     andThen (await (openFile W deletionLogPath (parseFlag ''r'') rootCred)) (\<lambda>file.
     andThen (await (file_stat file)) (\<lambda>st.
     andThen (await (file_read file (nat (size' st)))) (\<lambda>buffer.
     return (decode buffer))))"

text \<open>\<^verbatim>\<open>_initialize\<close>.\<close>

definition initialize :: "'w FileSystem \<Rightarrow> (unit, ('w, 'r) UnlockedOverlayFS) AsyncCall" where
  "initialize W =
     async (\<lambda>ov.
       if isInitialized ov then return () ov
       else andThen
              (try_catch
                 (andThen (on_writable (readDeletionLog W)) (\<lambda>log.
                    assign (\<lambda>ov. ov\<lparr>deleteLog := log\<rparr>)))
                 (\<lambda>err. if errno err \<noteq> ENOENT then throw err else return ()))
              (\<lambda>_. andThen (assign (\<lambda>ov. ov\<lparr>isInitialized := True\<rparr>)) (\<lambda>_. reparseDeletionLog))
              ov)"

text \<open>\<^verbatim>\<open>checkInitialized\<close> and \<^verbatim>\<open>checkPath\<close>.\<close>

definition checkInitialized :: "(unit, ('w, 'r) UnlockedOverlayFS) SyncCall" where
  "checkInitialized ov =
     (if \<not> isInitialized ov then throw (ErrnoError_new EPERM) ov
      else (case deleteLogError ov of
              None \<Rightarrow> return () ov
            | Some error \<Rightarrow> throw error (ov\<lparr>deleteLogError := None\<rparr>)))"

definition checkPath :: "string \<Rightarrow> (unit, 's) SyncCall" where
  "checkPath path =
     (if path = deletionLogPath then throw (With EPERM path ''checkPath'') else return ())"

text \<open>
  \<^verbatim>\<open>updateLog\<close>. The call of \<^verbatim>\<open>openFile\<close> stands before the \<^verbatim>\<open>try\<close>: its exception
  rejects the promise and leaves \<^verbatim>\<open>_deleteLogUpdatePending\<close> set. Inside the \<^verbatim>\<open>try\<close>
  an exception is stored in \<^verbatim>\<open>_deleteLogError\<close>, and \<^verbatim>\<open>finally\<close> clears the flag.
\<close>

function updateLog ::
  "'w FileSystem \<Rightarrow> string \<Rightarrow> Cred \<Rightarrow> (unit, ('w, 'r) UnlockedOverlayFS) AsyncCall" where
  "updateLog W addition cred ov =
     (let ov1 = ov\<lparr>deleteLog := deleteLog ov @ addition\<rparr> in
      if deleteLogUpdatePending ov1 then (Resolved (), ov1\<lparr>deleteLogUpdateNeeded := True\<rparr>)
      else
        (case on_writable (await (openFile W deletionLogPath (parseFlag ''w'') cred))
                (ov1\<lparr>deleteLogUpdatePending := True\<rparr>) of
           (Inl e, ov3) \<Rightarrow> (Rejected e, ov3)
         | (Inr log, ov3) \<Rightarrow>
             (case on_writable (await (file_write log (encode (deleteLog ov3)))) ov3 of
                (Inl e, ov4) \<Rightarrow>
                  (Resolved (), ov4\<lparr>deleteLogError := Some e, deleteLogUpdatePending := False\<rparr>)
              | (Inr _, ov4) \<Rightarrow>
                  (if deleteLogUpdateNeeded ov4 then
                     (case updateLog W [] cred (ov4\<lparr>deleteLogUpdateNeeded := False\<rparr>) of
                        (Rejected e, ov5) \<Rightarrow>
                          (Resolved (), ov5\<lparr>deleteLogError := Some e, deleteLogUpdatePending := False\<rparr>)
                      | (Resolved _, ov5) \<Rightarrow> (Resolved (), ov5\<lparr>deleteLogUpdatePending := False\<rparr>))
                   else (Resolved (), ov4\<lparr>deleteLogUpdatePending := False\<rparr>)))))"
  by pat_completeness auto
termination
  apply (relation "measure (\<lambda>(W, addition, cred, ov). if deleteLogUpdatePending ov then 0 else 1)")
   apply simp
  apply (auto simp add: on_writable_def split: prod.splits)
  done

declare updateLog.simps [simp del]

text \<open>\<^verbatim>\<open>deletePath\<close>.\<close>

definition deletePath ::
  "'w FileSystem \<Rightarrow> string \<Rightarrow> Cred \<Rightarrow> (unit, ('w, 'r) UnlockedOverlayFS) AsyncCall" where
  "deletePath W path cred =
     async (andThen (assign (\<lambda>ov. ov\<lparr>deletedFiles := insert path (deletedFiles ov)\<rparr>)) (\<lambda>_.
            await (updateLog W (''d'' @ path @ [LF]) cred)))"

text \<open>
  \<^verbatim>\<open>void this.deletePath(path, cred)\<close>, as the synchronous methods call it: the part of
  \<^verbatim>\<open>deletePath\<close> and \<^verbatim>\<open>updateLog\<close> that runs before the first suspension. The write of
  the log to the writable layer happens in a later task and is not part of this step.
\<close>

definition deletePath_started :: "string \<Rightarrow> (unit, ('w, 'r) UnlockedOverlayFS) SyncCall" where
  "deletePath_started path =
     andThen (assign (\<lambda>ov. ov\<lparr>deletedFiles := insert path (deletedFiles ov)\<rparr>)) (\<lambda>_.
     andThen (assign (\<lambda>ov. ov\<lparr>deleteLog := deleteLog ov @ (''d'' @ path @ [LF])\<rparr>)) (\<lambda>_.
       assign (\<lambda>ov. if deleteLogUpdatePending ov then ov\<lparr>deleteLogUpdateNeeded := True\<rparr>
                    else ov\<lparr>deleteLogUpdatePending := True\<rparr>)))"

text \<open>\<^verbatim>\<open>rename\<close> and \<^verbatim>\<open>renameSync\<close>.\<close>

definition Overlay_rename ::
  "'w FileSystem \<Rightarrow> string \<Rightarrow> string \<Rightarrow> Cred \<Rightarrow> (unit, ('w, 'r) UnlockedOverlayFS) AsyncCall" where
  "Overlay_rename W oldPath newPath cred =
     async (andThen checkInitialized (\<lambda>_.
            andThen (checkPath oldPath) (\<lambda>_.
            andThen (checkPath newPath) (\<lambda>_.
            try_catch (on_writable (await (rename W oldPath newPath cred)))
              (\<lambda>e ov. if oldPath \<in> deletedFiles ov
                       then throw (With ENOENT oldPath ''rename'') ov
                       else return () ov)))))"

definition Overlay_renameSync ::
  "'w FileSystem \<Rightarrow> string \<Rightarrow> string \<Rightarrow> Cred \<Rightarrow> (unit, ('w, 'r) UnlockedOverlayFS) SyncCall" where
  "Overlay_renameSync W oldPath newPath cred =
     andThen checkInitialized (\<lambda>_.
     andThen (checkPath oldPath) (\<lambda>_.
     andThen (checkPath newPath) (\<lambda>_.
     try_catch (on_writable (renameSync W oldPath newPath cred))
       (\<lambda>e ov. if oldPath \<in> deletedFiles ov
                then throw (With ENOENT oldPath ''rename'') ov
                else return () ov))))"

text \<open>\<^verbatim>\<open>stat\<close> and \<^verbatim>\<open>statSync\<close>; \<^verbatim>\<open>0o222\<close> is 146.\<close>

definition Overlay_stat ::
  "'w FileSystem \<Rightarrow> 'r FileSystem \<Rightarrow> string \<Rightarrow> Cred \<Rightarrow> (Stats, ('w, 'r) UnlockedOverlayFS) AsyncCall" where
  "Overlay_stat W R path cred =
     async (andThen checkInitialized (\<lambda>_.
            try_catch (on_writable (await (stat W path cred)))
              (\<lambda>e ov. if path \<in> deletedFiles ov
                       then throw (With ENOENT path ''stat'') ov
                       else andThen (on_readable (await (stat R path cred))) (\<lambda>st.
                              return ((Stats_new st)\<lparr>mode := js_or (mode (Stats_new st)) 146\<rparr>)) ov)))"

definition Overlay_statSync ::
  "'w FileSystem \<Rightarrow> 'r FileSystem \<Rightarrow> string \<Rightarrow> Cred \<Rightarrow> (Stats, ('w, 'r) UnlockedOverlayFS) SyncCall" where
  "Overlay_statSync W R path cred =
     andThen checkInitialized (\<lambda>_.
     try_catch (on_writable (statSync W path cred))
       (\<lambda>e ov. if path \<in> deletedFiles ov
                then throw (With ENOENT path ''stat'') ov
                else andThen (on_readable (statSync R path cred)) (\<lambda>st.
                       return ((Stats_new st)\<lparr>mode := js_or (mode (Stats_new st)) 146\<rparr>)) ov))"

text \<open>\<^verbatim>\<open>exists\<close> and \<^verbatim>\<open>existsSync\<close> are inherited from \<^verbatim>\<open>FileSystem\<close>.\<close>

definition Overlay_exists ::
  "'w FileSystem \<Rightarrow> 'r FileSystem \<Rightarrow> string \<Rightarrow> Cred \<Rightarrow> (bool, ('w, 'r) UnlockedOverlayFS) AsyncCall" where
  "Overlay_exists W R = FileSystem_exists (Overlay_stat W R)"

definition Overlay_existsSync ::
  "'w FileSystem \<Rightarrow> 'r FileSystem \<Rightarrow> string \<Rightarrow> Cred \<Rightarrow> (bool, ('w, 'r) UnlockedOverlayFS) SyncCall" where
  "Overlay_existsSync W R = FileSystem_existsSync (Overlay_statSync W R)"

text \<open>\<^verbatim>\<open>link\<close> and \<^verbatim>\<open>linkSync\<close>.\<close>

definition Overlay_link ::
  "'w FileSystem \<Rightarrow> string \<Rightarrow> string \<Rightarrow> Cred \<Rightarrow> (unit, ('w, 'r) UnlockedOverlayFS) AsyncCall" where
  "Overlay_link W srcpath dstpath cred =
     async (andThen checkInitialized (\<lambda>_. on_writable (await (link W srcpath dstpath cred))))"

definition Overlay_linkSync ::
  "'w FileSystem \<Rightarrow> string \<Rightarrow> string \<Rightarrow> Cred \<Rightarrow> (unit, ('w, 'r) UnlockedOverlayFS) SyncCall" where
  "Overlay_linkSync W srcpath dstpath cred =
     andThen checkInitialized (\<lambda>_. on_writable (linkSync W srcpath dstpath cred))"

text \<open>\<^verbatim>\<open>unlink\<close> and \<^verbatim>\<open>unlinkSync\<close>.\<close>

definition Overlay_unlink ::
  "'w FileSystem \<Rightarrow> 'r FileSystem \<Rightarrow> string \<Rightarrow> Cred \<Rightarrow> (unit, ('w, 'r) UnlockedOverlayFS) AsyncCall" where
  "Overlay_unlink W R path cred =
     async (andThen checkInitialized (\<lambda>_.
            andThen (checkPath path) (\<lambda>_.
            andThen (await (Overlay_exists W R path cred)) (\<lambda>ex.
            if \<not> ex then throw (With ENOENT path ''unlink'')
            else
            andThen (on_writable (await (exists W path cred))) (\<lambda>onW.
            andThen (if onW then on_writable (await (unlink W path cred)) else return ()) (\<lambda>_.
            andThen (await (Overlay_exists W R path cred)) (\<lambda>still.
            if still then await (deletePath W path cred) else return ())))))))"

definition Overlay_unlinkSync ::
  "'w FileSystem \<Rightarrow> 'r FileSystem \<Rightarrow> string \<Rightarrow> Cred \<Rightarrow> (unit, ('w, 'r) UnlockedOverlayFS) SyncCall" where
  "Overlay_unlinkSync W R path cred =
     andThen checkInitialized (\<lambda>_.
     andThen (checkPath path) (\<lambda>_.
     andThen (Overlay_existsSync W R path cred) (\<lambda>ex.
     if \<not> ex then throw (With ENOENT path ''unlink'')
     else
     andThen (on_writable (existsSync W path cred)) (\<lambda>onW.
     andThen (if onW then on_writable (unlinkSync W path cred) else return ()) (\<lambda>_.
     andThen (Overlay_existsSync W R path cred) (\<lambda>still.
     if still then deletePath_started path else return ()))))))"

text \<open>
  \<^verbatim>\<open>readdir\<close> and \<^verbatim>\<open>readdirSync\<close>. The final filter keeps a name when \<^verbatim>\<open>seenMap[name]\<close>
  is falsy. \<^verbatim>\<open>seenMap\<close> starts as the object literal \<^verbatim>\<open>{}\<close>, whose lookups also find the
  properties of \<^verbatim>\<open>Object.prototype\<close> (all truthy): \<open>filter_seen\<close> takes the names seen so
  far, and starts from those.
\<close>

definition Object_prototype_keys :: "string list" where
  "Object_prototype_keys =
     [''constructor'', ''__defineGetter__'', ''__defineSetter__'', ''hasOwnProperty'',
      ''__lookupGetter__'', ''__lookupSetter__'', ''isPrototypeOf'', ''propertyIsEnumerable'',
      ''toString'', ''valueOf'', ''__proto__'', ''toLocaleString'']"

fun filter_seen :: "string list \<Rightarrow> string list \<Rightarrow> string list" where
  "filter_seen seenMap [] = []"
| "filter_seen seenMap (p # ps) =
     (if p \<in> set seenMap then filter_seen (p # seenMap) ps else p # filter_seen (p # seenMap) ps)"

definition Overlay_readdir ::
  "'w FileSystem \<Rightarrow> 'r FileSystem \<Rightarrow> string \<Rightarrow> Cred \<Rightarrow> (string list, ('w, 'r) UnlockedOverlayFS) AsyncCall" where
  "Overlay_readdir W R path cred =
     async (andThen checkInitialized (\<lambda>_.
            andThen (await (Overlay_stat W R path cred)) (\<lambda>dirStats.
            if \<not> isDirectory dirStats then throw (With ENOTDIR path ''readdir'')
            else
            andThen (try_catch (on_writable (await (readdir W path cred))) (\<lambda>e. return [])) (\<lambda>fromW.
            andThen (try_catch
                       (andThen (on_readable (await (readdir R path cred))) (\<lambda>names ov.
                          return (filter (\<lambda>fPath. path @ ''/'' @ fPath \<notin> deletedFiles ov) names) ov))
                       (\<lambda>e. return [])) (\<lambda>fromR.
            return (filter_seen Object_prototype_keys (fromW @ fromR)))))))"

definition Overlay_readdirSync ::
  "'w FileSystem \<Rightarrow> 'r FileSystem \<Rightarrow> string \<Rightarrow> Cred \<Rightarrow> (string list, ('w, 'r) UnlockedOverlayFS) SyncCall" where
  "Overlay_readdirSync W R path cred =
     andThen checkInitialized (\<lambda>_.
     andThen (Overlay_statSync W R path cred) (\<lambda>dirStats.
     if \<not> isDirectory dirStats then throw (With ENOTDIR path ''readdir'')
     else
     andThen (try_catch (on_writable (readdirSync W path cred)) (\<lambda>e. return [])) (\<lambda>fromW.
     andThen (try_catch
                (andThen (on_readable (readdirSync R path cred)) (\<lambda>names ov.
                   return (filter (\<lambda>fPath. path @ ''/'' @ fPath \<notin> deletedFiles ov) names) ov))
                (\<lambda>e. return [])) (\<lambda>fromR.
     return (filter_seen Object_prototype_keys (fromW @ fromR))))))"

text \<open>\<^verbatim>\<open>rmdir\<close> and \<^verbatim>\<open>rmdirSync\<close>.\<close>

definition Overlay_rmdir ::
  "'w FileSystem \<Rightarrow> 'r FileSystem \<Rightarrow> string \<Rightarrow> Cred \<Rightarrow> (unit, ('w, 'r) UnlockedOverlayFS) AsyncCall" where
  "Overlay_rmdir W R path cred =
     async (andThen checkInitialized (\<lambda>_.
            andThen (await (Overlay_exists W R path cred)) (\<lambda>ex.
            if \<not> ex then throw (With ENOENT path ''rmdir'')
            else
            andThen (on_writable (await (exists W path cred))) (\<lambda>onW.
            andThen (if onW then on_writable (await (rmdir W path cred)) else return ()) (\<lambda>_.
            andThen (await (Overlay_exists W R path cred)) (\<lambda>still.
            if still then
              andThen (await (Overlay_readdir W R path cred)) (\<lambda>names.
              if length names > 0 then throw (With ENOTEMPTY path ''rmdir'')
              else await (deletePath W path cred))
            else return ()))))))"

definition Overlay_rmdirSync ::
  "'w FileSystem \<Rightarrow> 'r FileSystem \<Rightarrow> string \<Rightarrow> Cred \<Rightarrow> (unit, ('w, 'r) UnlockedOverlayFS) SyncCall" where
  "Overlay_rmdirSync W R path cred =
     andThen checkInitialized (\<lambda>_.
     andThen (Overlay_existsSync W R path cred) (\<lambda>ex.
     if \<not> ex then throw (With ENOENT path ''rmdir'')
     else
     andThen (on_writable (existsSync W path cred)) (\<lambda>onW.
     andThen (if onW then on_writable (rmdirSync W path cred) else return ()) (\<lambda>_.
     andThen (Overlay_existsSync W R path cred) (\<lambda>still.
     if still then
       andThen (Overlay_readdirSync W R path cred) (\<lambda>names.
       if length names > 0 then throw (With ENOTEMPTY path ''rmdir'')
       else deletePath_started path)
     else return ())))))"

section \<open>The async bridge: the queue of AsyncFS\<close>

text \<open>
  The operations \<^verbatim>\<open>queue\<close> takes: the name of an asynchronous method and its arguments.
\<close>

datatype AsyncOperation =
    OpRename string string Cred
  | OpCreateFile string string int Cred
  | OpUnlink string Cred
  | OpRmdir string Cred
  | OpMkdir string int Cred
  | OpLink string string Cred
  | OpSync string bytes Stats

text \<open>
  What can be observed of the bridge: the call of a method of the asynchronous backend
  (the operation starts), and the settling of the promise that call returned.
\<close>

datatype Event = Started AsyncOperation | Settled AsyncOperation

text \<open>
  The fields \<^verbatim>\<open>_sync\<close> (the state of the synchronous cache, if one is attached),
  \<^verbatim>\<open>_disableSync\<close> and \<^verbatim>\<open>_queue\<close> of an \<^verbatim>\<open>AsyncFS\<close>, and two components that stand for the
  runtime: the operations whose promise is pending, each awaited by a suspended call of
  \<^verbatim>\<open>_next\<close>, and the events so far.
\<close>

record 'm AsyncFS =
  sync_cache :: "'m option"
  disableSync :: bool
  queue :: "AsyncOperation list"
  in_flight :: "AsyncOperation list"
  events :: "Event list"

text \<open>The getter \<^verbatim>\<open>_queueRunning\<close>.\<close>

definition queueRunning :: "'m AsyncFS \<Rightarrow> bool" where
  "queueRunning this = (queue this \<noteq> [])"

text \<open>
  \<^verbatim>\<open>_next\<close>, from its call to its first suspension. An \<^verbatim>\<open>async\<close> function runs
  synchronously up to its first \<^verbatim>\<open>await\<close>: \<^verbatim>\<open>_next\<close> returns at once on an empty queue,
  and otherwise shifts the first operation off the queue and calls its method on the
  backend, and is suspended on the promise.
\<close>

definition AsyncFS_next :: "'m AsyncFS \<Rightarrow> 'm AsyncFS" where
  "AsyncFS_next this =
     (if \<not> queueRunning this then this
      else (case queue this of
              [] \<Rightarrow> this
            | op # rest \<Rightarrow>
                this\<lparr>queue := rest, in_flight := in_flight this @ [op],
                     events := events this @ [Started op]\<rparr>))"

text \<open>\<^verbatim>\<open>queue(...op)\<close>: push, then \<^verbatim>\<open>void this._next()\<close>.\<close>

definition AsyncFS_queue :: "AsyncOperation \<Rightarrow> 'm AsyncFS \<Rightarrow> 'm AsyncFS" where
  "AsyncFS_queue op this = AsyncFS_next (this\<lparr>queue := queue this @ [op]\<rparr>)"

text \<open>
  The promise of an operation in flight settles, and the call of \<^verbatim>\<open>_next\<close> that awaits
  it resumes: after a resolved promise it goes on with \<^verbatim>\<open>await this._next()\<close>; a
  rejection ends it.
\<close>

definition AsyncFS_settle :: "AsyncOperation \<Rightarrow> bool \<Rightarrow> 'm AsyncFS \<Rightarrow> 'm AsyncFS" where
  "AsyncFS_settle op resolved this =
     (if op \<notin> set (in_flight this) then this
      else (let this' = this\<lparr>in_flight := remove1 op (in_flight this),
                              events := events this @ [Settled op]\<rparr>
            in if resolved then AsyncFS_next this' else this'))"

text \<open>\<^verbatim>\<open>checkSync(path, syscall)\<close>.\<close>

definition checkSync :: "string \<Rightarrow> string \<Rightarrow> (unit, 'm AsyncFS) SyncCall" where
  "checkSync path sc this =
     (if disableSync this then throw \<lparr>errno = ENOTSUP, epath = Some path, syscall = Some sc\<rparr> this
      else if sync_cache this = None
           then throw \<lparr>errno = ENOTSUP, epath = Some path, syscall = Some sc\<rparr> this
      else return () this)"

text \<open>A call on \<^verbatim>\<open>this._sync\<close>, which \<^verbatim>\<open>checkSync\<close> has asserted to be there.\<close>

definition on_sync :: "('a, 'm) SyncCall \<Rightarrow> ('a, 'm AsyncFS) SyncCall" where
  "on_sync m this =
     (case sync_cache this of
        None \<Rightarrow> throw (ErrnoError_new ENOTSUP) this
      | Some c \<Rightarrow> (case m c of (res, c') \<Rightarrow> (res, this\<lparr>sync_cache := Some c'\<rparr>)))"

text \<open>
  The synchronous readers of \<^verbatim>\<open>AsyncFS\<close>, \<^verbatim>\<open>existsSync\<close> among them: \<^verbatim>\<open>AsyncFS\<close> does not
  inherit it from \<^verbatim>\<open>FileSystem\<close>.
\<close>

definition AsyncFS_statSync ::
  "'m FileSystem \<Rightarrow> string \<Rightarrow> Cred \<Rightarrow> (Stats, 'm AsyncFS) SyncCall" where
  "AsyncFS_statSync S path cred =
     andThen (checkSync path ''stat'') (\<lambda>_. on_sync (statSync S path cred))"

definition AsyncFS_readdirSync ::
  "'m FileSystem \<Rightarrow> string \<Rightarrow> Cred \<Rightarrow> (string list, 'm AsyncFS) SyncCall" where
  "AsyncFS_readdirSync S path cred =
     andThen (checkSync path ''readdir'') (\<lambda>_. on_sync (readdirSync S path cred))"

definition AsyncFS_existsSync ::
  "'m FileSystem \<Rightarrow> string \<Rightarrow> Cred \<Rightarrow> (bool, 'm AsyncFS) SyncCall" where
  "AsyncFS_existsSync S path cred =
     andThen (checkSync path ''exists'') (\<lambda>_. on_sync (existsSync S path cred))"

text \<open>
  The synchronous mutators of \<^verbatim>\<open>AsyncFS\<close> that return nothing: the operation is applied
  to the cache \<open>S\<close> first and then queued for the backend.
\<close>

definition AsyncFS_renameSync ::
  "'m FileSystem \<Rightarrow> string \<Rightarrow> string \<Rightarrow> Cred \<Rightarrow> (unit, 'm AsyncFS) SyncCall" where
  "AsyncFS_renameSync S oldPath newPath cred =
     andThen (checkSync oldPath ''rename'') (\<lambda>_.
     andThen (on_sync (renameSync S oldPath newPath cred)) (\<lambda>_.
     assign (AsyncFS_queue (OpRename oldPath newPath cred))))"

definition AsyncFS_unlinkSync ::
  "'m FileSystem \<Rightarrow> string \<Rightarrow> Cred \<Rightarrow> (unit, 'm AsyncFS) SyncCall" where
  "AsyncFS_unlinkSync S path cred =
     andThen (checkSync path ''unlinkSync'') (\<lambda>_.
     andThen (on_sync (unlinkSync S path cred)) (\<lambda>_.
     assign (AsyncFS_queue (OpUnlink path cred))))"

definition AsyncFS_rmdirSync ::
  "'m FileSystem \<Rightarrow> string \<Rightarrow> Cred \<Rightarrow> (unit, 'm AsyncFS) SyncCall" where
  "AsyncFS_rmdirSync S path cred =
     andThen (checkSync path ''rmdir'') (\<lambda>_.
     andThen (on_sync (rmdirSync S path cred)) (\<lambda>_.
     assign (AsyncFS_queue (OpRmdir path cred))))"

definition AsyncFS_mkdirSync ::
  "'m FileSystem \<Rightarrow> string \<Rightarrow> int \<Rightarrow> Cred \<Rightarrow> (unit, 'm AsyncFS) SyncCall" where
  "AsyncFS_mkdirSync S path m cred =
     andThen (checkSync path ''mkdir'') (\<lambda>_.
     andThen (on_sync (mkdirSync S path m cred)) (\<lambda>_.
     assign (AsyncFS_queue (OpMkdir path m cred))))"

definition AsyncFS_linkSync ::
  "'m FileSystem \<Rightarrow> string \<Rightarrow> string \<Rightarrow> Cred \<Rightarrow> (unit, 'm AsyncFS) SyncCall" where
  "AsyncFS_linkSync S srcpath dstpath cred =
     andThen (checkSync srcpath ''link'') (\<lambda>_.
     andThen (on_sync (linkSync S srcpath dstpath cred)) (\<lambda>_.
     assign (AsyncFS_queue (OpLink srcpath dstpath cred))))"

definition AsyncFS_syncSync ::
  "'m FileSystem \<Rightarrow> string \<Rightarrow> bytes \<Rightarrow> Stats \<Rightarrow> (unit, 'm AsyncFS) SyncCall" where
  "AsyncFS_syncSync S path data stats =
     andThen (checkSync path ''sync'') (\<lambda>_.
     andThen (on_sync (syncSync S path data stats)) (\<lambda>_.
     assign (AsyncFS_queue (OpSync path data stats))))"

section \<open>Mount configurations: resolveMountConfig\<close>

text \<open>
  A backend, as \<^verbatim>\<open>resolveMountConfig\<close> uses one: \<^verbatim>\<open>isAvailable()\<close>, \<^verbatim>\<open>create(config)\<close>, and
  \<^verbatim>\<open>ready()\<close> of the file system created. \<^verbatim>\<open>checkOptions(backend, config)\<close> of
  backends/backend.ts is not part of the sources at hand; it is a component of the
  backend here (\<open>Some e\<close>: it throws \<open>e\<close>). The options a backend gets are the entries of
  the configuration other than \<^verbatim>\<open>backend\<close>, each a file system or a plain value.
\<close>

datatype ('fs, 'v) Arg = ArgFS 'fs | ArgPlain 'v

record ('fs, 'v) Backend =
  isAvailable :: bool
  checkOptions :: "(string \<times> ('fs, 'v) Arg) list \<Rightarrow> ErrnoError option"
  create :: "(string \<times> ('fs, 'v) Arg) list \<Rightarrow> ErrnoError + 'fs"
  ready :: "'fs \<Rightarrow> ErrnoError option"

text \<open>
  A mount configuration (\<^verbatim>\<open>isMountConfig\<close>) is a file system, a backend, or an object with
  a \<^verbatim>\<open>backend\<close> and further entries, in the order of \<^verbatim>\<open>Object.entries\<close>. The value of an
  entry is a mount configuration or something else (\<open>Plain\<close>).
\<close>

datatype ('fs, 'v) MountConfiguration =
    IsFileSystem 'fs
  | IsBackend "('fs, 'v) Backend"
  | IsBackendConfig "('fs, 'v) Backend" "(string \<times> ('fs, 'v) Value) list"
and ('fs, 'v) Value =
    MountConfig "('fs, 'v) MountConfiguration"
  | Plain 'v

text \<open>
  The statements of \<^verbatim>\<open>resolveMountConfig\<close> after the loop, on the configuration the loop
  leaves. (The assignment to \<^verbatim>\<open>mount._disableSync\<close> is not modelled.)
\<close>

definition createMount :: "('fs, 'v) Backend \<Rightarrow> (string \<times> ('fs, 'v) Arg) list \<Rightarrow> ErrnoError + 'fs" where
  "createMount backend config =
     (if \<not> isAvailable backend then Inl (ErrnoError_new EPERM)
      else (case checkOptions backend config of
              Some e \<Rightarrow> Inl e
            | None \<Rightarrow>
                (case create backend config of
                   Inl e \<Rightarrow> Inl e
                 | Inr mount \<Rightarrow>
                     (case ready backend mount of
                        Some e \<Rightarrow> Inl e
                      | None \<Rightarrow> Inr mount))))"

text \<open>
  \<^verbatim>\<open>resolveMountConfig(config, _depth)\<close>, and its loop over the entries as
  \<open>resolveEntries\<close>. The loop skips an entry whose value is no mount configuration; on
  one that is, it throws \<^verbatim>\<open>EINVAL\<close> if \<^verbatim>\<open>_depth > 10\<close>, and otherwise resolves the value
  with \<^verbatim>\<open>++_depth\<close>: the callee gets \<^verbatim>\<open>_depth + 1\<close>, and so does the rest of the loop.
\<close>

fun resolveMountConfig :: "('fs, 'v) Value \<Rightarrow> nat \<Rightarrow> ErrnoError + 'fs"
and resolveEntries ::
  "(string \<times> ('fs, 'v) Value) list \<Rightarrow> nat \<Rightarrow> ErrnoError + (string \<times> ('fs, 'v) Arg) list"
where
  "resolveMountConfig (Plain v) depth = Inl (ErrnoError_new EINVAL)"
| "resolveMountConfig (MountConfig (IsFileSystem fs)) depth = Inr fs"
| "resolveMountConfig (MountConfig (IsBackend backend)) depth = createMount backend []"
| "resolveMountConfig (MountConfig (IsBackendConfig backend entries)) depth =
     (case resolveEntries entries depth of
        Inl e \<Rightarrow> Inl e
      | Inr config \<Rightarrow> createMount backend config)"
| "resolveEntries [] depth = Inr []"
| "resolveEntries ((key, Plain v) # rest) depth =
     (case resolveEntries rest depth of
        Inl e \<Rightarrow> Inl e
      | Inr config \<Rightarrow> Inr ((key, ArgPlain v) # config))"
| "resolveEntries ((key, MountConfig mc) # rest) depth =
     (if depth > 10 then Inl (ErrnoError_new EINVAL)
      else (case resolveMountConfig (MountConfig mc) (depth + 1) of
              Inl e \<Rightarrow> Inl e
            | Inr fs \<Rightarrow>
                (case resolveEntries rest (depth + 1) of
                   Inl e \<Rightarrow> Inl e
                 | Inr config \<Rightarrow> Inr ((key, ArgFS fs) # config))))"

section \<open>A small in-memory file system, for the concrete examples\<close>

text \<open>
  Modelled from the spec: the Store-backed file system behind the \<^verbatim>\<open>InMemory\<close> backend
  (backends/Store.ts) and the path utilities (emulation/path.ts) are not part of the
  sources at hand. The examples below need some implementation of \<^verbatim>\<open>FileSystem\<close> to run
  the overlay on. This one is a table from absolute paths to nodes; it follows the
  contract of \<^verbatim>\<open>FileSystem\<close> (\<^verbatim>\<open>openFile\<close>: "the file must exist") and the error codes of
  section 4.2 of the specification, checks no credentials, and implements the
  asynchronous methods by the synchronous ones. A file handle is as section 4.2 has it:
  it buffers what is written in memory, and the data reaches the file system only on
  \<^verbatim>\<open>sync\<close> or \<^verbatim>\<open>close\<close>. \<^verbatim>\<open>updateLog\<close> calls neither on the handle of the log
  (\<^verbatim>\<open>copyToWritable\<close>, which is not modelled, closes the handle it writes through), so a
  write through a handle returns the number of bytes and leaves the file system as it is.
\<close>

datatype Node = DirNode | FileNode bytes

type_synonym MemState = "(string \<times> Node) list"

definition mem_basename :: "string \<Rightarrow> string" where
  "mem_basename p = rev (takeWhile (\<lambda>c. c \<noteq> CHR ''/'') (rev p))"

definition mem_dirname :: "string \<Rightarrow> string" where
  "mem_dirname p =
     (let d = rev (drop 1 (dropWhile (\<lambda>c. c \<noteq> CHR ''/'') (rev p))) in if d = [] then ''/'' else d)"

definition mem_children :: "MemState \<Rightarrow> string \<Rightarrow> string list" where
  "mem_children s path =
     map (\<lambda>e. mem_basename (fst e)) (filter (\<lambda>e. fst e \<noteq> ''/'' \<and> mem_dirname (fst e) = path) s)"

definition mem_stats :: "Node \<Rightarrow> Stats" where
  "mem_stats n =
     (case n of
        DirNode \<Rightarrow> \<lparr>size' = 4096, mode = 16877, atimeMs = 0, mtimeMs = 0, ctimeMs = 0,
                    birthtimeMs = 0, uid' = 0, gid' = 0, ino = 0\<rparr>
      | FileNode b \<Rightarrow> \<lparr>size' = int (length b), mode = 33188, atimeMs = 0, mtimeMs = 0, ctimeMs = 0,
                       birthtimeMs = 0, uid' = 0, gid' = 0, ino = 0\<rparr>)"

definition mem_statSync :: "string \<Rightarrow> Cred \<Rightarrow> (Stats, MemState) SyncCall" where
  "mem_statSync path cred s =
     (case map_of s path of
        None \<Rightarrow> throw (With ENOENT path ''stat'') s
      | Some n \<Rightarrow> return (mem_stats n) s)"

definition mem_readdirSync :: "string \<Rightarrow> Cred \<Rightarrow> (string list, MemState) SyncCall" where
  "mem_readdirSync path cred s =
     (case map_of s path of
        None \<Rightarrow> throw (With ENOENT path ''readdir'') s
      | Some (FileNode b) \<Rightarrow> throw (With ENOTDIR path ''readdir'') s
      | Some DirNode \<Rightarrow> return (mem_children s path) s)"

definition mem_remove :: "string \<Rightarrow> MemState \<Rightarrow> MemState" where
  "mem_remove path s = filter (\<lambda>e. fst e \<noteq> path) s"

definition mem_unlinkSync :: "string \<Rightarrow> Cred \<Rightarrow> (unit, MemState) SyncCall" where
  "mem_unlinkSync path cred s =
     (case map_of s path of
        None \<Rightarrow> throw (With ENOENT path ''unlink'') s
      | Some DirNode \<Rightarrow> throw (With EISDIR path ''unlink'') s
      | Some (FileNode b) \<Rightarrow> return () (mem_remove path s))"

definition mem_rmdirSync :: "string \<Rightarrow> Cred \<Rightarrow> (unit, MemState) SyncCall" where
  "mem_rmdirSync path cred s =
     (case map_of s path of
        None \<Rightarrow> throw (With ENOENT path ''rmdir'') s
      | Some (FileNode b) \<Rightarrow> throw (With ENOTDIR path ''rmdir'') s
      | Some DirNode \<Rightarrow>
          if mem_children s path \<noteq> [] then throw (With ENOTEMPTY path ''rmdir'') s
          else return () (mem_remove path s))"

definition mem_add :: "string \<Rightarrow> Node \<Rightarrow> string \<Rightarrow> (unit, MemState) SyncCall" where
  "mem_add path n sc s =
     (if map_of s path \<noteq> None then throw (With EEXIST path sc) s
      else if map_of s (mem_dirname path) \<noteq> Some DirNode then throw (With ENOENT path sc) s
      else return () (s @ [(path, n)]))"

definition mem_mkdirSync :: "string \<Rightarrow> int \<Rightarrow> Cred \<Rightarrow> (unit, MemState) SyncCall" where
  "mem_mkdirSync path m cred = mem_add path DirNode ''mkdir''"

definition mem_file :: "string \<Rightarrow> MemState File" where
  "mem_file path =
     \<lparr>file_stat = async (mem_statSync path rootCred),
      file_read = (\<lambda>n. async (\<lambda>s. case map_of s path of
                                     Some (FileNode b) \<Rightarrow> return (take n b) s
                                   | _ \<Rightarrow> throw (With EIO path ''read'') s)),
      file_write = (\<lambda>data. async (\<lambda>s. case map_of s path of
                                     Some (FileNode b) \<Rightarrow> return (length data) s
                                   | _ \<Rightarrow> throw (With EIO path ''write'') s))\<rparr>"

definition mem_openFileSync :: "string \<Rightarrow> string \<Rightarrow> Cred \<Rightarrow> (MemState File, MemState) SyncCall" where
  "mem_openFileSync path flag cred s =
     (case map_of s path of
        None \<Rightarrow> throw (With ENOENT path ''openFile'') s
      | Some n \<Rightarrow> return (mem_file path) s)"

definition mem_createFileSync ::
  "string \<Rightarrow> string \<Rightarrow> int \<Rightarrow> Cred \<Rightarrow> (MemState File, MemState) SyncCall" where
  "mem_createFileSync path flag m cred =
     andThen (mem_add path (FileNode []) ''createFile'') (\<lambda>_. return (mem_file path))"

definition mem_renameSync :: "string \<Rightarrow> string \<Rightarrow> Cred \<Rightarrow> (unit, MemState) SyncCall" where
  "mem_renameSync oldPath newPath cred s =
     (case map_of s oldPath of
        None \<Rightarrow> throw (With ENOENT oldPath ''rename'') s
      | Some n \<Rightarrow>
          if map_of s (mem_dirname newPath) \<noteq> Some DirNode then throw (With ENOENT newPath ''rename'') s
          else return () (mem_remove newPath (mem_remove oldPath s) @ [(newPath, n)]))"

definition mem_linkSync :: "string \<Rightarrow> string \<Rightarrow> Cred \<Rightarrow> (unit, MemState) SyncCall" where
  "mem_linkSync srcpath dstpath cred s =
     (case map_of s srcpath of
        None \<Rightarrow> throw (With ENOENT srcpath ''link'') s
      | Some n \<Rightarrow> mem_add dstpath n ''link'' s)"

definition mem_syncSync :: "string \<Rightarrow> bytes \<Rightarrow> Stats \<Rightarrow> (unit, MemState) SyncCall" where
  "mem_syncSync path data stats s =
     (case map_of s path of
        Some (FileNode b) \<Rightarrow> return () (map (\<lambda>e. if fst e = path then (path, FileNode data) else e) s)
      | _ \<Rightarrow> throw (With ENOENT path ''sync'') s)"

definition mem_metadata :: FileSystemMetadata where
  "mem_metadata = \<lparr>name = ''memfs'', readonly = False, totalSpace = 0, freeSpace = 0,
                   noResizableBuffers = False, noAsyncCache = False, fstype = 0x7a656e6673\<rparr>"

definition MemFS :: "MemState FileSystem" where
  "MemFS =
     \<lparr>metadata = mem_metadata,
      rename = (\<lambda>oldPath newPath cred. async (mem_renameSync oldPath newPath cred)),
      renameSync = mem_renameSync,
      stat = (\<lambda>path cred. async (mem_statSync path cred)),
      statSync = mem_statSync,
      openFile = (\<lambda>path flag cred. async (mem_openFileSync path flag cred)),
      openFileSync = mem_openFileSync,
      createFile = (\<lambda>path flag m cred. async (mem_createFileSync path flag m cred)),
      createFileSync = mem_createFileSync,
      unlink = (\<lambda>path cred. async (mem_unlinkSync path cred)),
      unlinkSync = mem_unlinkSync,
      rmdir = (\<lambda>path cred. async (mem_rmdirSync path cred)),
      rmdirSync = mem_rmdirSync,
      mkdir = (\<lambda>path m cred. async (mem_mkdirSync path m cred)),
      mkdirSync = mem_mkdirSync,
      readdir = (\<lambda>path cred. async (mem_readdirSync path cred)),
      readdirSync = mem_readdirSync,
      exists = FileSystem_exists (\<lambda>path cred. async (mem_statSync path cred)),
      existsSync = FileSystem_existsSync mem_statSync,
      link = (\<lambda>srcpath dstpath cred. async (mem_linkSync srcpath dstpath cred)),
      linkSync = mem_linkSync,
      sync = (\<lambda>path data stats. async (mem_syncSync path data stats)),
      syncSync = mem_syncSync\<rparr>"

section \<open>Notions of the specification, and the states of its scenarios\<close>

text \<open>
  An asynchronous call is equivalent to a synchronous one when the promise resolves with
  exactly the value the synchronous call returns, rejects with exactly the error it
  throws, and both leave the same state.
\<close>

definition settles_as :: "'a Promise \<times> 's \<Rightarrow> (ErrnoError + 'a) \<times> 's \<Rightarrow> bool" where
  "settles_as p r =
     ((case fst r of Inr v \<Rightarrow> fst p = Resolved v | Inl e \<Rightarrow> fst p = Rejected e) \<and> snd p = snd r)"

text \<open>
  Scenario S3 of the specification: an overlay over a readable layer that holds
  \<^verbatim>\<open>/ro.txt\<close> with content \<^verbatim>\<open>X\<close>, and a writable layer that holds nothing but an empty
  deletion log (with no log file at all the first \<^verbatim>\<open>unlink\<close> is rejected, see
  \<open>Overlay_unlink_without_log_file\<close> below). \<open>S3_overlay\<close> is the overlay once
  \<^verbatim>\<open>ready()\<close> has resolved.
\<close>

definition S3_writable :: MemState where
  "S3_writable = [(''/'', DirNode), (''/.deleted'', FileNode [])]"

definition S3_readable :: MemState where
  "S3_readable = [(''/'', DirNode), (''/ro.txt'', FileNode ''X'')]"

definition S3_overlay :: "(MemState, MemState) UnlockedOverlayFS" where
  "S3_overlay = \<lparr>writable = S3_writable, readable = S3_readable, isInitialized = True,
                  deletedFiles = {}, deleteLog = [], deleteLogUpdatePending = False,
                  deleteLogUpdateNeeded = False, deleteLogError = None\<rparr>"

text \<open>The same, with the file in a directory below the root.\<close>

definition sub_readable :: MemState where
  "sub_readable = [(''/'', DirNode), (''/dir'', DirNode), (''/dir/ro.txt'', FileNode ''X'')]"

text \<open>
  The deletion log format: lines separated by LF, each \<^verbatim>\<open>d<absolute-path>\<close>; other lines are
  ignored. \<open>logged_paths\<close> is the set of paths a log names.
\<close>

definition logged_paths :: "string \<Rightarrow> string set" where
  "logged_paths log = set (map slice1 (filter (\<lambda>entry. startsWith entry ''d'') (split_newline log)))"

text \<open>The overlay after a sequence of deletions, each \<^verbatim>\<open>deletePath\<close> awaited before the next.\<close>

definition deletePaths ::
  "'w FileSystem \<Rightarrow> string list \<Rightarrow> Cred \<Rightarrow> ('w, 'r) UnlockedOverlayFS \<Rightarrow> ('w, 'r) UnlockedOverlayFS" where
  "deletePaths W ps cred ov = fold (\<lambda>p ov. snd (deletePath W p cred ov)) ps ov"

text \<open>A new overlay over a writable layer \<open>w\<close> and the readable layer of S3, as constructed.\<close>

definition reopened :: "MemState \<Rightarrow> (MemState, MemState) UnlockedOverlayFS" where
  "reopened w = \<lparr>writable = w, readable = S3_readable, isInitialized = False, deletedFiles = {},
                  deleteLog = [], deleteLogUpdatePending = False, deleteLogUpdateNeeded = False,
                  deleteLogError = None\<rparr>"

text \<open>
  The second of two operations waits for the first when it is not started, or only
  started after the first has settled.
\<close>

definition serialized :: "Event list \<Rightarrow> AsyncOperation \<Rightarrow> AsyncOperation \<Rightarrow> bool" where
  "serialized evs op1 op2 =
     (if Started op2 \<in> set evs then Settled op1 \<in> set (takeWhile (\<lambda>e. e \<noteq> Started op2) evs)
      else True)"

text \<open>A bridge whose cache holds the root directory only, with nothing queued.\<close>

definition bridge0 :: "MemState AsyncFS" where
  "bridge0 = \<lparr>sync_cache = Some [(''/'', DirNode)], disableSync = False, queue = [],
              in_flight = [], events = []\<rparr>"

text \<open>
  The nesting depth of a mount configuration: how deep mount configurations stand in
  option values of mount configurations.
\<close>

fun nesting_depth :: "('fs, 'v) MountConfiguration \<Rightarrow> nat"
and entries_depth :: "(string \<times> ('fs, 'v) Value) list \<Rightarrow> nat"
where
  "nesting_depth (IsFileSystem fs) = 0"
| "nesting_depth (IsBackend backend) = 0"
| "nesting_depth (IsBackendConfig backend entries) = entries_depth entries"
| "entries_depth [] = 0"
| "entries_depth ((key, Plain v) # rest) = entries_depth rest"
| "entries_depth ((key, MountConfig mc) # rest) = max (Suc (nesting_depth mc)) (entries_depth rest)"

text \<open>
  A backend with two options that are file systems, as \<^verbatim>\<open>Overlay\<close> has (it is available,
  accepts its options and creates a file system that is ready), and overlays nested in
  the \<^verbatim>\<open>readable\<close> option: \<open>nestedOverlay n\<close> has \<open>n + 1\<close> overlays. A file system is
  named by a string here. \<open>chain n\<close> nests \<open>n\<close> configurations with one option each.
\<close>

definition OverlayBackend :: "(string, string) Backend" where
  "OverlayBackend = \<lparr>isAvailable = True, checkOptions = (\<lambda>config. None),
                      create = (\<lambda>config. Inr ''overlay''), ready = (\<lambda>mount. None)\<rparr>"

fun nestedOverlay :: "nat \<Rightarrow> (string, string) MountConfiguration" where
  "nestedOverlay 0 =
     IsBackendConfig OverlayBackend
       [(''writable'', MountConfig (IsFileSystem ''w'')), (''readable'', MountConfig (IsFileSystem ''r''))]"
| "nestedOverlay (Suc n) =
     IsBackendConfig OverlayBackend
       [(''writable'', MountConfig (IsFileSystem ''w'')), (''readable'', MountConfig (nestedOverlay n))]"

fun chain :: "nat \<Rightarrow> (string, string) MountConfiguration" where
  "chain 0 = IsBackendConfig OverlayBackend []"
| "chain (Suc n) = IsBackendConfig OverlayBackend [(''fs'', MountConfig (chain n))]"

section \<open>Basic facts\<close>

lemma await_async: "await (async m) = m"
  by (rule ext) (simp add: await_def async_def split: prod.splits sum.splits)

lemma async_await: "async (await p) = p"
  by (rule ext) (simp add: await_def async_def split: prod.splits Promise.splits)

lemma code_ENOENT: "(code e = ''ENOENT'') = (errno e = ENOENT)"
  by (cases "errno e") (simp_all add: code_def)

lemma settles_as_async: "settles_as (async m s) (m s)"
  by (simp add: settles_as_def async_def split: prod.splits sum.splits)

lemma checkInitialized_no_error:
  "deleteLogError ov = None \<Longrightarrow>
   checkInitialized ov = (if isInitialized ov then (Inr (), ov) else (Inl (ErrnoError_new EPERM), ov))"
  by (simp add: checkInitialized_def throw_def return_def)

lemma S3_overlay_ready:
  "case UnlockedOverlayFS_new MemFS S3_writable S3_readable of
     Inl e \<Rightarrow> False
   | Inr ov \<Rightarrow> initialize MemFS ov = (Resolved (), S3_overlay)"
  by code_simp

section \<open>Access checks\<close>

lemma sint_word32_in_range:
  assumes "0 \<le> x" "x < 2 ^ 31"
  shows "sint (word_of_int x :: 32 word) = x"
proof -
  have "sint (word_of_int x :: 32 word) = signed_take_bit 31 x"
    by (simp add: sint_sbintrunc')
  also have "\<dots> = x"
    using assms by (intro signed_take_bit_int_eq_self) auto
  finally show ?thesis .
qed

text \<open>Within the range of modes, the operators of JavaScript are the bitwise operators.\<close>

lemma js_and_in_range:
  assumes "0 \<le> a" "a < 2 ^ 31" "0 \<le> b"
  shows "js_and a b = a AND b"
proof -
  have eq: "(word_of_int a :: 32 word) AND word_of_int b = word_of_int (a AND b)"
    by (simp add: of_int_and_eq)
  have "0 \<le> a AND b" using assms by simp
  moreover have "a AND b \<le> a" using assms by (simp add: AND_upper1)
  ultimately show ?thesis
    using assms unfolding js_and_def eq by (intro sint_word32_in_range) auto
qed

lemma js_or_in_range:
  assumes "0 \<le> a" "a < 2 ^ 31" "0 \<le> b" "b < 2 ^ 31"
  shows "js_or a b = a OR b"
proof -
  have eq: "(word_of_int a :: 32 word) OR word_of_int b = word_of_int (a OR b)"
    by (simp add: of_int_or_eq)
  have "0 \<le> a OR b" using assms by simp
  moreover have "a OR b < 2 ^ 31" using assms by (intro OR_upper) auto
  ultimately show ?thesis
    unfolding js_or_def eq by (intro sint_word32_in_range) auto
qed

text \<open>
  Claim C7. For every stats value \<open>s\<close>, requested mode \<open>m\<close> and credential \<open>cred\<close>,
  \<open>hasAccess\<close> is true if the effective user or group is 0, and otherwise exactly when
  \<open>(m & s.mode & adjusted) == m\<close>, with \<open>adjusted\<close> the union of \<open>S_IRWXU\<close> (if the user
  owns the item), \<open>S_IRWXG\<close> (if the group does) and \<open>S_IRWXO\<close>.
\<close>

theorem hasAccess_spec:
  "hasAccess s m cred =
     (euid cred = 0 \<or> egid cred = 0 \<or>
      js_and (js_and m (mode s))
        (js_or (js_or (if uid cred = uid' s then S_IRWXU else 0)
                      (if gid cred = gid' s then S_IRWXG else 0)) S_IRWXO) = m)"
  by (auto simp add: hasAccess_def Let_def)

lemma hasAccess_owner_may_read:
  "hasAccess \<lparr>size' = 0, mode = 33188, atimeMs = 0, mtimeMs = 0, ctimeMs = 0, birthtimeMs = 0,
              uid' = 1000, gid' = 1000, ino = 1\<rparr> 4
     \<lparr>uid = 1000, gid = 1000, suid = 1000, sgid = 1000, euid = 1000, egid = 1000\<rparr>"
  by (simp add: hasAccess_def js_and_def js_or_def S_IRWXU_def S_IRWXG_def S_IRWXO_def)

lemma hasAccess_other_may_not_write:
  "\<not> hasAccess \<lparr>size' = 0, mode = 33188, atimeMs = 0, mtimeMs = 0, ctimeMs = 0, birthtimeMs = 0,
                uid' = 1000, gid' = 1000, ino = 1\<rparr> 2
       \<lparr>uid = 1001, gid = 1001, suid = 1000, sgid = 1000, euid = 1001, egid = 1001\<rparr>"
  by (simp add: hasAccess_def js_and_def js_or_def S_IRWXU_def S_IRWXG_def S_IRWXO_def)

text \<open>
  For a caller that is not root and a requested mode in range: the access check in
  terms of the bitwise operators on integers.
\<close>

lemma hasAccess_bits:
  assumes "euid cred \<noteq> 0" "egid cred \<noteq> 0" "0 \<le> m" "m < 2 ^ 31" "0 \<le> mode s"
  shows "hasAccess s m cred =
           (m AND mode s AND ((if uid cred = uid' s then 448 else 0) OR
                              (if gid cred = gid' s then 56 else 0) OR 7) = m)"
proof -
  let ?adj = "(if uid cred = uid' s then 448 else 0) OR (if gid cred = gid' s then 56 else 0) OR (7 :: int)"
  have adj: "js_or (js_or (if uid cred = uid' s then S_IRWXU else 0)
                          (if gid cred = gid' s then S_IRWXG else 0)) S_IRWXO = ?adj"
    by (simp add: js_or_def S_IRWXU_def S_IRWXG_def S_IRWXO_def)
  have adj0: "0 \<le> ?adj" by simp
  have a1: "js_and m (mode s) = m AND mode s"
    using assms by (intro js_and_in_range) auto
  have "0 \<le> m AND mode s" using assms by simp
  moreover have "m AND mode s \<le> m" using assms by (simp add: AND_upper1)
  ultimately have a2: "js_and (m AND mode s) ?adj = (m AND mode s) AND ?adj"
    using assms adj0 by (intro js_and_in_range) auto
  show ?thesis
    using assms(1,2) by (simp only: hasAccess_def Let_def adj a1 a2) (simp add: and.assoc)
qed

section \<open>The default exists\<close>

text \<open>
  Claim C9, as the code has it. \<open>exists\<close> and \<open>existsSync\<close> as \<open>FileSystem\<close> defines them
  (every file system inherits them unless it overrides them) return false exactly when
  \<open>stat\<close> (\<open>statSync\<close>) of the same object fails with an error whose code is \<open>ENOENT\<close>;
  when \<open>stat\<close> succeeds or fails with any other code they return true. They never throw,
  and leave the state \<open>stat\<close> leaves. \<open>AsyncFS\<close> overrides \<open>existsSync\<close>: it throws
  \<open>ENOTSUP\<close> when the synchronous cache is disabled or missing, and otherwise returns
  what \<open>existsSync\<close> of the cache returns.
\<close>

theorem exists_false_iff_ENOENT:
  "FileSystem_exists this_stat path cred s =
     (Resolved (\<not> (\<exists>e. fst (this_stat path cred s) = Rejected e \<and> code e = ''ENOENT'')),
      snd (this_stat path cred s))
   \<and> FileSystem_existsSync this_statSync path cred s =
     (Inr (\<not> (\<exists>e. fst (this_statSync path cred s) = Inl e \<and> code e = ''ENOENT'')),
      snd (this_statSync path cred s))
   \<and> AsyncFS_existsSync S path cred this =
     (if disableSync this \<or> sync_cache this = None
      then (Inl \<lparr>errno = ENOTSUP, epath = Some path, syscall = Some ''exists''\<rparr>, this)
      else on_sync (existsSync S path cred) this)"
  by (auto simp add: FileSystem_exists_def FileSystem_existsSync_def async_def await_def
      try_catch_def andThen_def return_def throw_def AsyncFS_existsSync_def checkSync_def
      split: prod.splits sum.splits Promise.splits)

text \<open>
  Claim C9 as stated ("for every FileSystem") fails on an \<open>AsyncFS\<close> whose cache is
  disabled: \<open>statSync\<close> fails with \<open>ENOTSUP\<close>, which is not \<open>ENOENT\<close>, and \<open>existsSync\<close> does
  not return true; it throws \<open>ENOTSUP\<close> too.
\<close>

theorem AsyncFS_existsSync_throws:
  "AsyncFS_statSync MemFS ''/'' rootCred (bridge0\<lparr>disableSync := True\<rparr>)
     = (Inl \<lparr>errno = ENOTSUP, epath = Some ''/'', syscall = Some ''stat''\<rparr>,
        bridge0\<lparr>disableSync := True\<rparr>)
   \<and> AsyncFS_existsSync MemFS ''/'' rootCred (bridge0\<lparr>disableSync := True\<rparr>)
     = (Inl \<lparr>errno = ENOTSUP, epath = Some ''/'', syscall = Some ''exists''\<rparr>,
        bridge0\<lparr>disableSync := True\<rparr>)
   \<and> fst (AsyncFS_existsSync MemFS ''/'' rootCred (bridge0\<lparr>disableSync := True\<rparr>)) \<noteq> Inr True"
  by code_simp

lemma exists_true_on_other_error:
  "this_stat path cred s = (Rejected e, s') \<Longrightarrow> errno e \<noteq> ENOENT \<Longrightarrow>
   FileSystem_exists this_stat path cred s = (Resolved True, s')"
  by (simp add: FileSystem_exists_def async_def await_def try_catch_def andThen_def return_def
      code_ENOENT)

section \<open>The mixins\<close>

text \<open>
  Claim C5. Every mutating operation of a \<open>ReadonlyFS\<close> (rename, createFile, unlink, rmdir,
  mkdir, link, sync; asynchronous and synchronous), for all arguments, fails with an error
  whose code is \<open>EROFS\<close> and leaves the state of the file system unchanged; and
  \<open>metadata().readonly\<close> is true.
\<close>

theorem Readonly_EROFS:
  "code (ErrnoError_new EROFS) = ''EROFS''
   \<and> readonly (metadata (Readonly FS))
   \<and> rename (Readonly FS) oldPath newPath cred s = (Rejected (ErrnoError_new EROFS), s)
   \<and> renameSync (Readonly FS) oldPath newPath cred s = (Inl (ErrnoError_new EROFS), s)
   \<and> createFile (Readonly FS) path flag m cred s = (Rejected (ErrnoError_new EROFS), s)
   \<and> createFileSync (Readonly FS) path flag m cred s = (Inl (ErrnoError_new EROFS), s)
   \<and> unlink (Readonly FS) path cred s = (Rejected (ErrnoError_new EROFS), s)
   \<and> unlinkSync (Readonly FS) path cred s = (Inl (ErrnoError_new EROFS), s)
   \<and> rmdir (Readonly FS) path cred s = (Rejected (ErrnoError_new EROFS), s)
   \<and> rmdirSync (Readonly FS) path cred s = (Inl (ErrnoError_new EROFS), s)
   \<and> mkdir (Readonly FS) path m cred s = (Rejected (ErrnoError_new EROFS), s)
   \<and> mkdirSync (Readonly FS) path m cred s = (Inl (ErrnoError_new EROFS), s)
   \<and> link (Readonly FS) srcpath dstpath cred s = (Rejected (ErrnoError_new EROFS), s)
   \<and> linkSync (Readonly FS) srcpath dstpath cred s = (Inl (ErrnoError_new EROFS), s)
   \<and> sync (Readonly FS) path data stats s = (Rejected (ErrnoError_new EROFS), s)
   \<and> syncSync (Readonly FS) path data stats s = (Inl (ErrnoError_new EROFS), s)"
  by (simp add: Readonly_def async_def throw_def code_def ErrnoError_new_def)

text \<open>The operations that read are those of the wrapped file system.\<close>

lemma Readonly_reads:
  "stat (Readonly FS) = stat FS \<and> statSync (Readonly FS) = statSync FS
   \<and> readdir (Readonly FS) = readdir FS \<and> readdirSync (Readonly FS) = readdirSync FS
   \<and> openFile (Readonly FS) = openFile FS \<and> openFileSync (Readonly FS) = openFileSync FS
   \<and> exists (Readonly FS) = exists FS \<and> existsSync (Readonly FS) = existsSync FS"
  by (simp add: Readonly_def)

text \<open>
  Claim C10. For a file system produced by the \<open>Sync\<close> mixin, every asynchronous operation
  (exists, rename, stat, createFile, openFile, unlink, rmdir, mkdir, readdir, link, sync) is
  equivalent to its synchronous counterpart: for all arguments it resolves with exactly
  the value the synchronous method returns and rejects with exactly the error it throws.
\<close>

theorem Sync_async_is_sync:
  "settles_as (exists (Sync FS) path cred s) (existsSync (Sync FS) path cred s)
   \<and> settles_as (rename (Sync FS) oldPath newPath cred s) (renameSync (Sync FS) oldPath newPath cred s)
   \<and> settles_as (stat (Sync FS) path cred s) (statSync (Sync FS) path cred s)
   \<and> settles_as (createFile (Sync FS) path flag m cred s) (createFileSync (Sync FS) path flag m cred s)
   \<and> settles_as (openFile (Sync FS) path flag cred s) (openFileSync (Sync FS) path flag cred s)
   \<and> settles_as (unlink (Sync FS) path cred s) (unlinkSync (Sync FS) path cred s)
   \<and> settles_as (rmdir (Sync FS) path cred s) (rmdirSync (Sync FS) path cred s)
   \<and> settles_as (mkdir (Sync FS) path m cred s) (mkdirSync (Sync FS) path m cred s)
   \<and> settles_as (readdir (Sync FS) path cred s) (readdirSync (Sync FS) path cred s)
   \<and> settles_as (link (Sync FS) srcpath dstpath cred s) (linkSync (Sync FS) srcpath dstpath cred s)
   \<and> settles_as (sync (Sync FS) path data stats s) (syncSync (Sync FS) path data stats s)"
  by (simp add: Sync_def settles_as_async)

section \<open>The overlay\<close>

text \<open>
  Claim C1. After \<open>unlink(p)\<close> succeeds on a path that exists only on the readable layer,
  \<open>exists(p)\<close> is false and \<open>readdir(dirname(p))\<close> does not list \<open>basename(p)\<close>; for
  \<open>/ro.txt\<close> on the readable layer only, \<open>readdir("/")\<close> is empty after the unlink.
  The code does not do this in the root directory: \<open>readdir\<close> looks the name up in the set
  of deleted files as \<open>path + "/" + name\<close>, which for \<open>path = "/"\<close> is \<open>//ro.txt\<close>, so the
  deleted file is still listed (and so is the deletion log of the writable layer).
\<close>

theorem Overlay_readdir_root_lists_deleted:
  "fst (Overlay_unlink MemFS MemFS ''/ro.txt'' rootCred S3_overlay) = Resolved ()
   \<and> fst (Overlay_exists MemFS MemFS ''/ro.txt'' rootCred
            (snd (Overlay_unlink MemFS MemFS ''/ro.txt'' rootCred S3_overlay))) = Resolved False
   \<and> fst (Overlay_readdir MemFS MemFS ''/'' rootCred
            (snd (Overlay_unlink MemFS MemFS ''/ro.txt'' rootCred S3_overlay)))
       = Resolved [''.deleted'', ''ro.txt'']"
  by code_simp

text \<open>
  A path in the set of deleted files that the writable layer does not have does not
  exist any more, whatever the readable layer holds.
\<close>

lemma Overlay_exists_deleted:
  assumes "isInitialized ov" "deleteLogError ov = None" "path \<in> deletedFiles ov"
    and "stat W path cred (writable ov) = (Rejected e, w')"
  shows "Overlay_exists W R path cred ov = (Resolved False, ov\<lparr>writable := w'\<rparr>)"
  using assms
  by (simp add: Overlay_exists_def FileSystem_exists_def Overlay_stat_def checkInitialized_no_error
      andThen_def try_catch_def on_writable_def await_def async_def throw_def return_def
      code_def With_def)

text \<open>Below the root the deleted file is hidden.\<close>

lemma Overlay_readdir_subdir_hides_deleted:
  "fst (Overlay_unlink MemFS MemFS ''/dir/ro.txt'' rootCred (S3_overlay\<lparr>readable := sub_readable\<rparr>))
     = Resolved ()
   \<and> fst (Overlay_readdir MemFS MemFS ''/dir'' rootCred
            (snd (Overlay_unlink MemFS MemFS ''/dir/ro.txt'' rootCred
                    (S3_overlay\<lparr>readable := sub_readable\<rparr>))))
       = Resolved []"
  by code_simp

text \<open>
  On a writable layer with no deletion log yet, \<open>updateLog\<close> opens the log with
  \<open>openFile\<close>, which needs the file to exist: the unlink is rejected.
\<close>

lemma Overlay_unlink_without_log_file:
  "fst (Overlay_unlink MemFS MemFS ''/ro.txt'' rootCred (S3_overlay\<lparr>writable := [(''/'', DirNode)]\<rparr>))
     = Rejected (With ENOENT ''/.deleted'' ''openFile'')"
  by code_simp

text \<open>
  Claim C3. When the rename of the writable layer fails and \<open>oldPath\<close> is not in the set
  of deleted files, the overlay's rename surfaces the inner error; when \<open>oldPath\<close> is in
  the set it fails with \<open>ENOENT\<close>. The code does the second, not the first: the
  \<open>catch\<close> block rethrows nothing, and the call succeeds although nothing was renamed.
  Here \<open>/ro.txt\<close> is on the readable layer only; the writable layer rejects the rename
  with \<open>ENOENT\<close>, the overlay resolves, and \<open>/ro.txt\<close> is still there and \<open>/b.txt\<close> is not.
\<close>

theorem Overlay_rename_swallows_error:
  "rename MemFS ''/ro.txt'' ''/b.txt'' rootCred (writable S3_overlay)
     = (Rejected (With ENOENT ''/ro.txt'' ''rename''), writable S3_overlay)
   \<and> ''/ro.txt'' \<notin> deletedFiles S3_overlay
   \<and> Overlay_rename MemFS ''/ro.txt'' ''/b.txt'' rootCred S3_overlay = (Resolved (), S3_overlay)
   \<and> Overlay_renameSync MemFS ''/ro.txt'' ''/b.txt'' rootCred S3_overlay = (Inr (), S3_overlay)
   \<and> fst (Overlay_exists MemFS MemFS ''/ro.txt'' rootCred S3_overlay) = Resolved True
   \<and> fst (Overlay_exists MemFS MemFS ''/b.txt'' rootCred S3_overlay) = Resolved False"
  by code_simp

text \<open>The same for every writable layer, and the case of a deleted \<open>oldPath\<close>.\<close>

lemma Overlay_rename_inner_error:
  assumes "isInitialized ov" "deleteLogError ov = None"
    and "oldPath \<noteq> deletionLogPath" "newPath \<noteq> deletionLogPath"
    and "rename W oldPath newPath cred (writable ov) = (Rejected e, w')"
  shows "Overlay_rename W oldPath newPath cred ov =
           (if oldPath \<in> deletedFiles ov then Rejected (With ENOENT oldPath ''rename'') else Resolved (),
            ov\<lparr>writable := w'\<rparr>)"
  using assms
  by (simp add: Overlay_rename_def checkInitialized_no_error checkPath_def andThen_def
      try_catch_def on_writable_def await_def async_def throw_def return_def)

text \<open>
  Claim C4, as the code has it. \<open>rename\<close> (on either argument) and \<open>unlink\<close>, asynchronous
  and synchronous, fail with \<open>EPERM\<close> on the reserved path \<open>/.deleted\<close> and change nothing,
  whenever no error of an earlier write of the deletion log is pending (a pending error
  is thrown first).
\<close>

theorem Overlay_deletionLog_EPERM:
  assumes "deleteLogError ov = None"
  shows "(\<exists>e. Overlay_rename W deletionLogPath newPath cred ov = (Rejected e, ov) \<and> errno e = EPERM)
       \<and> (\<exists>e. Overlay_rename W oldPath deletionLogPath cred ov = (Rejected e, ov) \<and> errno e = EPERM)
       \<and> (\<exists>e. Overlay_renameSync W deletionLogPath newPath cred ov = (Inl e, ov) \<and> errno e = EPERM)
       \<and> (\<exists>e. Overlay_renameSync W oldPath deletionLogPath cred ov = (Inl e, ov) \<and> errno e = EPERM)
       \<and> (\<exists>e. Overlay_unlink W R deletionLogPath cred ov = (Rejected e, ov) \<and> errno e = EPERM)
       \<and> (\<exists>e. Overlay_unlinkSync W R deletionLogPath cred ov = (Inl e, ov) \<and> errno e = EPERM)"
  using assms
  by (simp add: Overlay_rename_def Overlay_renameSync_def Overlay_unlink_def Overlay_unlinkSync_def
      checkInitialized_no_error checkPath_def andThen_def async_def throw_def return_def
      ErrnoError_new_def With_def)

theorem Overlay_deletionLog_EPERM_witness:
  "deleteLogError S3_overlay = None
   \<and> (\<exists>e. Overlay_rename MemFS deletionLogPath ''/x'' rootCred S3_overlay = (Rejected e, S3_overlay)
          \<and> errno e = EPERM)
   \<and> (\<exists>e. Overlay_unlink MemFS MemFS deletionLogPath rootCred S3_overlay = (Rejected e, S3_overlay)
          \<and> errno e = EPERM)"
proof -
  have h: "deleteLogError S3_overlay = None" by (simp add: S3_overlay_def)
  show ?thesis
    using h Overlay_deletionLog_EPERM [OF h, of MemFS "''/x''" rootCred "''/y''" MemFS] by blast
qed

text \<open>
  Claim C4 as stated fails: the other operations do not check the path. On the overlay of
  scenario S3, \<open>stat\<close> and \<open>statSync\<close> of \<open>/.deleted\<close> return the stats of the log file,
  \<open>readdir\<close> fails with \<open>ENOTDIR\<close>, and \<open>link\<close> succeeds.
\<close>

theorem Overlay_stat_deletionLog_succeeds:
  "Overlay_stat MemFS MemFS ''/.deleted'' rootCred S3_overlay
     = (Resolved (mem_stats (FileNode [])), S3_overlay)
   \<and> Overlay_statSync MemFS MemFS ''/.deleted'' rootCred S3_overlay
     = (Inr (mem_stats (FileNode [])), S3_overlay)
   \<and> fst (Overlay_readdir MemFS MemFS ''/.deleted'' rootCred S3_overlay)
     = Rejected (With ENOTDIR ''/.deleted'' ''readdir'')
   \<and> fst (Overlay_link MemFS ''/.deleted'' ''/copy'' rootCred S3_overlay) = Resolved ()"
  by code_simp

section \<open>The deletion log\<close>

lemma split_newline_nonempty: "split_newline s \<noteq> []"
  by (induction s) (auto split: list.splits)

lemma split_newline_append:
  "split_newline (x @ y) =
     butlast (split_newline x) @ (last (split_newline x) @ hd (split_newline y)) # tl (split_newline y)"
proof (induction x)
  case Nil
  then show ?case using split_newline_nonempty [of y] by simp
next
  case (Cons c cs)
  then show ?case
    using split_newline_nonempty [of cs]
    by (cases "split_newline cs") (auto split: list.splits)
qed

lemma split_newline_no_LF: "LF \<notin> set s \<Longrightarrow> split_newline s = [s]"
  by (induction s) auto

lemma last_split_newline_LF: "last (split_newline (s @ [LF])) = []"
  by (simp add: split_newline_append [of s "[LF]"])

lemma logged_paths_append:
  assumes "x = [] \<or> last x = LF"
  shows "logged_paths (x @ y) = logged_paths x \<union> logged_paths y"
proof -
  have l: "last (split_newline x) = []"
  proof (cases "x = []")
    case True
    then show ?thesis by simp
  next
    case False
    with assms have "x = butlast x @ [LF]" by (metis append_butlast_last_id)
    then show ?thesis using last_split_newline_LF [of "butlast x"] by simp
  qed
  have sx: "split_newline x = butlast (split_newline x) @ [[]]"
    using split_newline_nonempty [of x] l by (metis append_butlast_last_id)
  have sy: "hd (split_newline y) # tl (split_newline y) = split_newline y"
    using split_newline_nonempty [of y] by simp
  have sxy: "split_newline (x @ y) = butlast (split_newline x) @ split_newline y"
    using sy by (simp add: split_newline_append [of x y] l)
  have nd: "\<not> startsWith [] ''d''" by (simp add: startsWith_def)
  have "logged_paths x = set (map slice1 (filter (\<lambda>entry. startsWith entry ''d'') (butlast (split_newline x) @ [[]])))"
    unfolding logged_paths_def using sx by simp
  then have "logged_paths x = set (map slice1 (filter (\<lambda>entry. startsWith entry ''d'') (butlast (split_newline x))))"
    using nd by simp
  then show ?thesis
    unfolding logged_paths_def sxy by simp
qed

lemma split_newline_line:
  "LF \<notin> set x \<Longrightarrow> split_newline (x @ LF # rest) = x # split_newline rest"
  by (induction x) auto

lemma logged_paths_entry:
  assumes "LF \<notin> set p"
  shows "logged_paths (CHR ''d'' # p @ [LF]) = {p}"
proof -
  have "LF \<notin> set (CHR ''d'' # p)" using assms by (simp add: LF_def)
  then have "split_newline ((CHR ''d'' # p) @ LF # []) = (CHR ''d'' # p) # split_newline []"
    by (rule split_newline_line)
  then have sp: "split_newline (CHR ''d'' # p @ [LF]) = [CHR ''d'' # p, []]"
    by simp
  show ?thesis
    unfolding logged_paths_def sp by (simp add: startsWith_def slice1_def)
qed

lemma updateLog_deleteLog:
  "deleteLog (snd (updateLog W addition cred ov)) = deleteLog ov @ addition"
proof (induction W addition cred ov rule: updateLog.induct)
  case (1 W addition cred ov)
  show ?case
    apply (subst updateLog.simps)
    apply (simp add: Let_def split: prod.splits sum.splits Promise.splits)
    apply (intro conjI impI allI)
    using 1
    apply (auto simp add: on_writable_def split: prod.splits)
    done
qed

lemma updateLog_deletedFiles:
  "deletedFiles (snd (updateLog W addition cred ov)) = deletedFiles ov"
proof (induction W addition cred ov rule: updateLog.induct)
  case (1 W addition cred ov)
  show ?case
    apply (subst updateLog.simps)
    apply (simp add: Let_def split: prod.splits sum.splits Promise.splits)
    apply (intro conjI impI allI)
    using 1
    apply (auto simp add: on_writable_def split: prod.splits)
    done
qed

lemma deletePath_snd:
  "snd (deletePath W path cred ov) =
     snd (updateLog W (CHR ''d'' # path @ [LF]) cred (ov\<lparr>deletedFiles := insert path (deletedFiles ov)\<rparr>))"
proof -
  obtain res ov' where u: "updateLog W (CHR ''d'' # path @ [LF]) cred
      (ov\<lparr>deletedFiles := insert path (deletedFiles ov)\<rparr>) = (res, ov')"
    by (cases "updateLog W (CHR ''d'' # path @ [LF]) cred (ov\<lparr>deletedFiles := insert path (deletedFiles ov)\<rparr>)")
  show ?thesis
    using u by (cases res) (simp_all add: deletePath_def async_def await_def andThen_def assign_def)
qed

lemma deletePath_deleteLog:
  "deleteLog (snd (deletePath W path cred ov)) = deleteLog ov @ CHR ''d'' # path @ [LF]"
  by (simp only: deletePath_snd updateLog_deleteLog) simp

lemma deletePath_deletedFiles:
  "deletedFiles (snd (deletePath W path cred ov)) = insert path (deletedFiles ov)"
  by (simp only: deletePath_snd updateLog_deletedFiles) simp

lemma deletePaths_deleteLog:
  "deleteLog (deletePaths W ps cred ov) = deleteLog ov @ concat (map (\<lambda>p. CHR ''d'' # p @ [LF]) ps)"
proof (induction ps arbitrary: ov)
  case Nil
  then show ?case by (simp add: deletePaths_def)
next
  case (Cons p ps)
  have "deletePaths W (p # ps) cred ov = deletePaths W ps cred (snd (deletePath W p cred ov))"
    by (simp add: deletePaths_def)
  then show ?case
    by (simp only: Cons.IH deletePath_deleteLog) simp
qed

lemma deletePaths_deletedFiles:
  "deletedFiles (deletePaths W ps cred ov) = deletedFiles ov \<union> set ps"
proof (induction ps arbitrary: ov)
  case Nil
  then show ?case by (simp add: deletePaths_def)
next
  case (Cons p ps)
  have "deletePaths W (p # ps) cred ov = deletePaths W ps cred (snd (deletePath W p cred ov))"
    by (simp add: deletePaths_def)
  then show ?case
    by (simp only: Cons.IH deletePath_deletedFiles) auto
qed

text \<open>The log that deletions of paths without a line feed write names exactly those paths.\<close>

lemma logged_paths_entries:
  assumes "\<forall>p \<in> set ps. LF \<notin> set p"
  shows "logged_paths (concat (map (\<lambda>p. CHR ''d'' # p @ [LF]) ps)) = set ps"
  using assms
proof (induction ps)
  case Nil
  then show ?case by (simp add: logged_paths_def startsWith_def)
next
  case (Cons p ps)
  have p: "LF \<notin> set p" and rest: "\<forall>p \<in> set ps. LF \<notin> set p"
    using Cons.prems by simp_all
  have "logged_paths ((CHR ''d'' # p @ [LF]) @ concat (map (\<lambda>p. CHR ''d'' # p @ [LF]) ps))
          = logged_paths (CHR ''d'' # p @ [LF]) \<union> logged_paths (concat (map (\<lambda>p. CHR ''d'' # p @ [LF]) ps))"
    by (rule logged_paths_append) simp
  also have "\<dots> = {p} \<union> set ps"
    by (simp only: logged_paths_entry [OF p] Cons.IH [OF rest])
  finally show ?case by simp
qed

lemma fold_reparse:
  "deletedFiles (fold (\<lambda>entry ov'. if \<not> startsWith entry ''d'' then ov'
                                  else ov'\<lparr>deletedFiles := insert (slice1 entry) (deletedFiles ov')\<rparr>) es ov)
     = deletedFiles ov \<union> set (map slice1 (filter (\<lambda>entry. startsWith entry ''d'') es))"
  by (induction es arbitrary: ov) auto

lemma reparseDeletionLog_deletedFiles:
  "fst (reparseDeletionLog ov) = Inr ()
   \<and> deletedFiles (snd (reparseDeletionLog ov)) = logged_paths (deleteLog ov)"
  by (simp add: reparseDeletionLog_def andThen_def assign_def fold_reparse logged_paths_def)

lemma reparseDeletionLog_fst: "fst (reparseDeletionLog ov) = Inr ()"
  by (simp add: reparseDeletionLog_def andThen_def assign_def)

lemma initialize_reads_log:
  assumes "UnlockedOverlayFS_new W w r = Inr new"
    and "fst (readDeletionLog W w) = Inr log"
  shows "fst (initialize W new) = Resolved ()
         \<and> deletedFiles (snd (initialize W new)) = logged_paths log"
proof -
  from assms(1) have new: "writable new = w" "\<not> isInitialized new"
    by (auto simp add: UnlockedOverlayFS_new_def split: if_splits)
  obtain w' where rd: "readDeletionLog W w = (Inr log, w')"
    using assms(2) by (cases "readDeletionLog W w") auto
  let ?ov = "new\<lparr>writable := w', deleteLog := log, isInitialized := True\<rparr>"
  obtain res ov' where rp: "reparseDeletionLog ?ov = (res, ov')"
    by (cases "reparseDeletionLog ?ov")
  have res: "res = Inr ()"
    using reparseDeletionLog_fst [of ?ov] rp by simp
  have "initialize W new = (Resolved (), ov')"
    using new rd rp res
    by (simp add: initialize_def async_def andThen_def try_catch_def on_writable_def assign_def)
  moreover have "deletedFiles ov' = logged_paths log"
    using reparseDeletionLog_deletedFiles [of ?ov] rp by simp
  ultimately show ?thesis by simp
qed

lemma reopened_new: "UnlockedOverlayFS_new MemFS w S3_readable = Inr (reopened w)"
  by (simp add: UnlockedOverlayFS_new_def reopened_def MemFS_def mem_metadata_def)

text \<open>
  \<open>updateLog\<close> calls \<open>openFile\<close> and the handle's \<open>write\<close> on the writable layer, and
  nothing else: over a layer where opening a file changes nothing and a handle buffers
  what is written, deletions leave the writable layer as it was.
\<close>

lemma updateLog_leaves_writable:
  assumes "\<forall>flag s. snd (openFile W deletionLogPath flag cred s) = s"
    and "\<forall>flag s f data s'. fst (openFile W deletionLogPath flag cred s) = Resolved f \<longrightarrow>
               snd (file_write f data s') = s'"
  shows "writable (snd (updateLog W addition cred ov)) = writable ov"
  using assms
proof (induction W addition cred ov rule: updateLog.induct)
  case (1 W addition cred ov)
  have op: "\<And>flag s r s'. openFile W deletionLogPath flag cred s = (r, s') \<Longrightarrow> s' = s"
    using "1.prems"(1) by (metis snd_conv)
  have wr: "\<And>flag s f s1 data s' r s''.
              openFile W deletionLogPath flag cred s = (Resolved f, s1) \<Longrightarrow>
              file_write f data s' = (r, s'') \<Longrightarrow> s'' = s'"
    using "1.prems"(2) by (metis fst_conv snd_conv)
  show ?case
    apply (subst updateLog.simps)
    apply (simp add: Let_def split: prod.splits sum.splits Promise.splits)
    apply (intro conjI impI allI)
    using "1.IH" "1.prems"
    apply (auto simp add: on_writable_def await_def split: prod.splits Promise.splits dest: op wr)
    apply (frule op, drule wr, assumption, simp)+
    done
qed

lemma deletePaths_leaves_writable:
  assumes "\<forall>flag s. snd (openFile W deletionLogPath flag cred s) = s"
    and "\<forall>flag s f data s'. fst (openFile W deletionLogPath flag cred s) = Resolved f \<longrightarrow>
               snd (file_write f data s') = s'"
  shows "writable (deletePaths W ps cred ov) = writable ov"
proof (induction ps arbitrary: ov)
  case Nil
  then show ?case by (simp add: deletePaths_def)
next
  case (Cons p ps)
  have "deletePaths W (p # ps) cred ov = deletePaths W ps cred (snd (deletePath W p cred ov))"
    by (simp add: deletePaths_def)
  then show ?case
    by (simp only: Cons.IH deletePath_snd updateLog_leaves_writable [OF assms]) simp
qed

lemma mem_file_write_buffers: "snd (file_write (mem_file path) data s) = s"
  by (simp add: mem_file_def async_def return_def throw_def split: option.splits Node.splits)

lemma MemFS_openFile:
  "snd (openFile MemFS path flag cred s) = s
   \<and> (fst (openFile MemFS path flag cred s) = Resolved f \<longrightarrow> f = mem_file path)"
  by (simp add: MemFS_def async_def mem_openFileSync_def return_def throw_def split: option.splits)

lemma MemFS_deletePaths_writable:
  "writable (deletePaths MemFS ps cred ov) = writable ov"
proof (rule deletePaths_leaves_writable)
  show "\<forall>flag s. snd (openFile MemFS deletionLogPath flag cred s) = s"
    by (simp add: MemFS_openFile)
  show "\<forall>flag s f data s'. fst (openFile MemFS deletionLogPath flag cred s) = Resolved f \<longrightarrow>
               snd (file_write f data s') = s'"
    using MemFS_openFile mem_file_write_buffers by blast
qed

text \<open>So a new overlay over that layer finds the log that was stored before the deletions.\<close>

lemma MemFS_reopen_after_deletions:
  assumes "fst (readDeletionLog MemFS (writable ov)) = Inr log"
  shows "deletedFiles (snd (initialize MemFS (reopened (writable (deletePaths MemFS ps cred ov)))))
           = logged_paths log"
  using initialize_reads_log [OF reopened_new, of "writable ov" log] assms
  by (simp only: MemFS_deletePaths_writable)


text \<open>
  Claim C6. The deletion log round-trips: after deletions recorded by \<open>deletePath\<close>, each
  appending \<open>d\<close>, the path and a line feed to the log stored at \<open>/.deleted\<close> on the writable
  layer, a new overlay constructed over the same writable layer re-parses the log to the
  set of paths deleted in the first. The code does not store the log: \<open>updateLog\<close>
  writes it through a file handle that it neither syncs nor closes, and what is written
  through a handle stays in its buffer until then (\<open>updateLog_leaves_writable\<close>,
  \<open>MemFS_reopen_after_deletions\<close>). On the overlay of scenario S3 the deletion of
  \<open>/ro.txt\<close> resolves and leaves the first overlay with the set \<open>{/ro.txt}\<close> and the log
  \<open>d/ro.txt<LF>\<close>; the writable layer is as it was, its file \<open>/.deleted\<close> empty, and a new
  overlay over it initialises with no deleted file.
\<close>

theorem deletion_log_not_stored:
  "fst (deletePath MemFS ''/ro.txt'' rootCred S3_overlay) = Resolved ()
   \<and> deletedFiles (deletePaths MemFS [''/ro.txt''] rootCred S3_overlay) = {''/ro.txt''}
   \<and> deleteLog (deletePaths MemFS [''/ro.txt''] rootCred S3_overlay) = ''d/ro.txt'' @ [LF]
   \<and> writable (deletePaths MemFS [''/ro.txt''] rootCred S3_overlay) = S3_writable
   \<and> fst (readDeletionLog MemFS (writable (deletePaths MemFS [''/ro.txt''] rootCred S3_overlay)))
       = Inr []
   \<and> fst (initialize MemFS (reopened (writable (deletePaths MemFS [''/ro.txt''] rootCred S3_overlay))))
       = Resolved ()
   \<and> deletedFiles (snd (initialize MemFS
          (reopened (writable (deletePaths MemFS [''/ro.txt''] rootCred S3_overlay))))) = {}
   \<and> deletedFiles (snd (initialize MemFS
          (reopened (writable (deletePaths MemFS [''/ro.txt''] rootCred S3_overlay)))))
       \<noteq> deletedFiles (deletePaths MemFS [''/ro.txt''] rootCred S3_overlay)"
  by code_simp

text \<open>
  The same through \<open>unlink\<close>: the file is hidden in the overlay that deleted it, and
  visible again in a new overlay over the same layers.
\<close>

lemma Overlay_unlink_forgotten_on_reopen:
  "fst (Overlay_unlink MemFS MemFS ''/ro.txt'' rootCred S3_overlay) = Resolved ()
   \<and> fst (Overlay_exists MemFS MemFS ''/ro.txt'' rootCred
            (snd (Overlay_unlink MemFS MemFS ''/ro.txt'' rootCred S3_overlay))) = Resolved False
   \<and> fst (Overlay_exists MemFS MemFS ''/ro.txt'' rootCred
            (snd (initialize MemFS
               (reopened (writable (snd (Overlay_unlink MemFS MemFS ''/ro.txt'' rootCred S3_overlay)))))))
       = Resolved True"
  by code_simp

text \<open>
  The log itself, as the first overlay holds it in memory, names the paths deleted when
  none of them contains a line feed (\<open>deletePaths_deleteLog\<close>, \<open>logged_paths_entries\<close>);
  the entry of a path with a line feed names another path.
\<close>

lemma logged_paths_newline_path:
  "logged_paths (deleteLog (deletePaths MemFS [''/a'' @ [LF] @ ''b''] rootCred S3_overlay)) = {''/a''}"
  by code_simp

section \<open>The queue of the async bridge\<close>

text \<open>On an empty queue, \<open>queue\<close> starts the operation at once and leaves the queue empty.\<close>

lemma AsyncFS_queue_starts_at_once:
  "queue this = [] \<Longrightarrow>
   AsyncFS_queue op this
     = this\<lparr>in_flight := in_flight this @ [op], events := events this @ [Started op]\<rparr>"
  by (simp add: AsyncFS_queue_def AsyncFS_next_def queueRunning_def)

lemma AsyncFS_settle_empty_queue:
  "queue this = [] \<Longrightarrow> queue (AsyncFS_settle op resolved this) = []"
  by (simp add: AsyncFS_settle_def AsyncFS_next_def queueRunning_def Let_def)

text \<open>
  Claim C2. The queue of pending operations is strictly FIFO, and of two operations
  enqueued in order the second is not started before the promise of the first has
  resolved. The code starts operations in the order they are enqueued, but it does not
  wait: \<open>queue\<close> calls \<open>_next\<close> for every operation, and \<open>_next\<close> shifts the operation off
  the queue and calls its method at once, whether or not an earlier call of \<open>_next\<close> is
  still waiting. Here \<open>mkdirSync("/a")\<close> is followed by \<open>renameSync("/a", "/b")\<close>: both
  succeed on the cache, and the rename is started on the backend while the mkdir is in
  flight.
\<close>

theorem AsyncFS_queue_does_not_wait:
  "andThen (AsyncFS_mkdirSync MemFS ''/a'' 511 rootCred)
           (\<lambda>_. AsyncFS_renameSync MemFS ''/a'' ''/b'' rootCred) bridge0
     = (Inr (),
        \<lparr>sync_cache = Some [(''/'', DirNode), (''/b'', DirNode)], disableSync = False, queue = [],
         in_flight = [OpMkdir ''/a'' 511 rootCred, OpRename ''/a'' ''/b'' rootCred],
         events = [Started (OpMkdir ''/a'' 511 rootCred), Started (OpRename ''/a'' ''/b'' rootCred)]\<rparr>)
   \<and> \<not> serialized [Started (OpMkdir ''/a'' 511 rootCred), Started (OpRename ''/a'' ''/b'' rootCred)]
          (OpMkdir ''/a'' 511 rootCred) (OpRename ''/a'' ''/b'' rootCred)"
  by code_simp

section \<open>Mount configurations\<close>

text \<open>What \<open>resolveMountConfig\<close> does once the option values are resolved.\<close>

lemma createMount_unavailable:
  "\<not> isAvailable backend \<Longrightarrow> createMount backend config = Inl (ErrnoError_new EPERM)"
  by (simp add: createMount_def)

lemma createMount_invalid_options:
  "isAvailable backend \<Longrightarrow> checkOptions backend config = Some e \<Longrightarrow>
   createMount backend config = Inl e"
  by (simp add: createMount_def)

lemma createMount_ready:
  "isAvailable backend \<Longrightarrow> checkOptions backend config = None \<Longrightarrow>
   create backend config = Inr mount \<Longrightarrow> ready backend mount = None \<Longrightarrow>
   createMount backend config = Inr mount"
  by (simp add: createMount_def)

lemma resolveMountConfig_IsBackendConfig:
  "resolveEntries entries depth = Inr config \<Longrightarrow>
   resolveMountConfig (MountConfig (IsBackendConfig backend entries)) depth = createMount backend config"
  by simp

text \<open>The loop fails with \<open>EINVAL\<close> when it meets a mount configuration with \<open>_depth > 10\<close>.\<close>

lemma resolveEntries_too_deep:
  "10 < depth \<Longrightarrow> (key, MountConfig mc) \<in> set entries \<Longrightarrow>
   resolveEntries entries depth = Inl (ErrnoError_new EINVAL)"
proof (induction entries)
  case Nil
  then show ?case by simp
next
  case (Cons entry entries)
  obtain k v where entry: "entry = (k, v)" by (cases entry)
  show ?case
  proof (cases v)
    case (MountConfig mc')
    with entry Cons.prems show ?thesis by simp
  next
    case (Plain x)
    with entry Cons.prems have "(key, MountConfig mc) \<in> set entries" by auto
    with Cons.IH Cons.prems(1) entry Plain show ?thesis by simp
  qed
qed

text \<open>
  Claim C8. \<open>resolveMountConfig\<close> resolves option values that are mount configurations
  recursively and fails with \<open>EINVAL\<close> when the nesting depth exceeds 10; it validates the
  options, fails with \<open>EPERM\<close> when the backend is not available, and otherwise creates
  the file system, awaits \<open>ready()\<close> and returns it. The code does not count the nesting
  depth: \<open>++_depth\<close> also counts the mount configurations resolved before in the same
  object. Six overlays nested in one another, each over two file systems, have nesting
  depth 6, every backend is available and accepts its options, and the code fails with
  \<open>EINVAL\<close>; with five overlays it returns the file system.
\<close>

theorem resolveMountConfig_counts_siblings:
  "nesting_depth (nestedOverlay 5) = 6
   \<and> resolveMountConfig (MountConfig (nestedOverlay 5)) 0 = Inl (ErrnoError_new EINVAL)
   \<and> nesting_depth (nestedOverlay 4) = 5
   \<and> resolveMountConfig (MountConfig (nestedOverlay 4)) 0 = Inr ''overlay''"
  by code_simp

text \<open>With one option each, configurations nested 11 deep are resolved, and 12 deep are not.\<close>

lemma resolveMountConfig_chain:
  "nesting_depth (chain 11) = 11
   \<and> resolveMountConfig (MountConfig (chain 11)) 0 = Inr ''overlay''
   \<and> resolveMountConfig (MountConfig (chain 12)) 0 = Inl (ErrnoError_new EINVAL)"
  by code_simp

end
